(* ===== verification/Prelude.thy ===== *)
theory Prelude
  imports Complex_Main
begin

text \<open>
  Shared vocabulary of the development: the physical quantities of the model as type
  synonyms, the collection \<open>diode_defs\<close> of the definitions the component proofs unfold,
  and generic facts about the real exponential and about descending sequences that the
  solver proofs share: the tangent line of \<open>exp\<close> lies below it (convexity), lower bounds
  of \<open>exp\<close> obtained by repeated squaring, and a telescoping bound for a sequence whose
  steps are all at least \<open>d\<close>.
\<close>

type_synonym voltage = real
type_synonym current_density = real

named_theorems diode_defs "definitions of the single-diode model unfolded in its proofs"

subsection \<open>Convexity of the exponential\<close>

lemma exp_tangent_lower: "exp a * (1 + (b - a)) \<le> exp (b::real)"
proof -
  have "1 + (b - a) \<le> exp (b - a)"
    by (rule exp_ge_add_one_self)
  then have "exp a * (1 + (b - a)) \<le> exp a * exp (b - a)"
    by (simp add: mult_left_mono)
  also have "exp a * exp (b - a) = exp b"
    by (simp add: exp_diff)
  finally show ?thesis .
qed

lemma exp_mono_le [intro]: "a \<le> b \<Longrightarrow> exp a \<le> exp (b::real)"
  by simp

subsection \<open>Lower bounds of the exponential at concrete points\<close>

lemma exp_sq_lower:
  assumes "c \<le> exp (x::real)" "0 \<le> c" "d \<le> c * c" "y = 2 * x"
  shows "d \<le> exp y"
proof -
  have "c * c \<le> exp x * exp x"
    using mult_mono[OF assms(1) assms(1)] assms(2) by simp
  also have "exp x * exp x = exp y"
    by (simp add: assms(4) exp_add[symmetric])
  finally show ?thesis
    using assms(3) by linarith
qed

lemma exp_quarter_lower: "(41/32::real) \<le> exp (1/4)"
  using exp_lower_Taylor_quadratic[of "1/4::real"] by (simp add: power2_eq_square)

lemma exp_1_lower: "(2.6948::real) \<le> exp 1"
proof -
  have "(1.6416::real) \<le> exp (1/2)" by (rule exp_sq_lower[OF exp_quarter_lower]) simp_all
  then show ?thesis by (rule exp_sq_lower) simp_all
qed

lemma exp_2_lower: "(7.2618::real) \<le> exp 2"
  by (rule exp_sq_lower[OF exp_1_lower]) simp_all

lemma exp_4_lower: "(52.73::real) \<le> exp 4"
  by (rule exp_sq_lower[OF exp_2_lower]) simp_all

lemma exp_8_lower: "(2780::real) \<le> exp 8"
  by (rule exp_sq_lower[OF exp_4_lower]) simp_all

lemma exp_16_lower: "(7728400::real) \<le> exp 16"
  by (rule exp_sq_lower[OF exp_8_lower]) simp_all

lemma exp_add_lower:
  assumes "a \<le> exp (x::real)" "b \<le> exp y" "0 \<le> a" "0 \<le> b"
  shows "a * b \<le> exp (x + y)"
  using mult_mono[OF assms(1,2)] assms(3,4) by (simp add: exp_add)

lemma exp_30_lower: "(8000000000000::real) \<le> exp 30"
proof -
  have "7728400 * 2780 \<le> exp (16 + 8::real)"
    by (rule exp_add_lower[OF exp_16_lower exp_8_lower]) simp_all
  then have "7728400 * 2780 * 52.73 \<le> exp (16 + 8 + 4::real)"
    by (rule exp_add_lower[OF _ exp_4_lower]) simp_all
  then have "7728400 * 2780 * 52.73 * 7.2618 \<le> exp (16 + 8 + 4 + 2::real)"
    by (rule exp_add_lower[OF _ exp_2_lower]) simp_all
  then show ?thesis by simp
qed

lemma exp_28_lower: "(1132900000000::real) \<le> exp 28"
proof -
  have "7728400 * 2780 \<le> exp (16 + 8::real)"
    by (rule exp_add_lower[OF exp_16_lower exp_8_lower]) simp_all
  then have "7728400 * 2780 * 52.73 \<le> exp (16 + 8 + 4::real)"
    by (rule exp_add_lower[OF _ exp_4_lower]) simp_all
  then show ?thesis by simp
qed

lemma exp_29_95_lower: "(7300000000000::real) \<le> exp 29.95"
proof -
  have e: "(2.401::real) \<le> exp 0.95"
    using exp_lower_Taylor_quadratic[of "0.95::real"] by (simp add: power2_eq_square)
  have "1132900000000 \<le> exp (28::real)"
    by (rule exp_28_lower)
  then have "1132900000000 * 2.6948 \<le> exp (28 + 1::real)"
    by (rule exp_add_lower[OF _ exp_1_lower]) simp_all
  then have "1132900000000 * 2.6948 * 2.401 \<le> exp (28 + 1 + 0.95::real)"
    by (rule exp_add_lower[OF _ e]) simp_all
  then show ?thesis by simp
qed

lemma exp_32_lower: "(59000000000000::real) \<le> exp 32"
  by (rule exp_sq_lower[OF exp_16_lower]) simp_all

lemma exp_5_upper: "exp 5 \<le> (243::real)"
proof -
  have "exp (real 5 * 1) = exp (1::real) ^ 5"
    by (rule exp_of_nat_mult)
  also have "\<dots> \<le> 3 ^ 5"
    using exp_le by (intro power_mono) simp_all
  finally show ?thesis by simp
qed

subsection \<open>Upper bounds of the exponential at concrete points\<close>

text \<open>
  From \<open>exp x \<le> 1 + x + x\<^sup>2\<close> on \<open>[0, 1]\<close> at \<open>x = 1/128\<close>, squared twelve times with
  each square rounded up to nine significant digits.
\<close>

lemma exp_sq_upper:
  assumes "exp (x::real) \<le> c" "c * c \<le> d" "y = 2 * x"
  shows "exp y \<le> d"
proof -
  have "0 \<le> c"
    using assms(1) exp_ge_zero order.trans by blast
  then have "exp x * exp x \<le> c * c"
    using mult_mono[OF assms(1) assms(1)] by simp
  also have "exp x * exp x = exp y"
    by (simp add: assms(3) exp_add[symmetric])
  finally show ?thesis
    using assms(2) by linarith
qed

lemma exp_add_upper:
  assumes "exp (x::real) \<le> a" "exp y \<le> b"
  shows "exp (x + y) \<le> a * b"
  using mult_mono[OF assms] assms(1) exp_ge_zero[of x] by (simp add: exp_add)

lemma exp_128th_upper: "exp (1/128) \<le> (16513/16384::real)"
  using exp_bound[of "1/128::real"] by (simp add: power2_eq_square)

lemma exp_quarter_upper: "exp (1/4) \<le> (1.28526715::real)"
proof -
  have "exp (1/64) \<le> (1.01580907::real)" by (rule exp_sq_upper[OF exp_128th_upper]) simp_all
  then have "exp (1/32) \<le> (1.03186807::real)" by (rule exp_sq_upper) simp_all
  then have "exp (1/16) \<le> (1.06475172::real)" by (rule exp_sq_upper) simp_all
  then have "exp (1/8) \<le> (1.13369623::real)" by (rule exp_sq_upper) simp_all
  then show ?thesis by (rule exp_sq_upper) simp_all
qed

lemma exp_half_upper: "exp (1/2) \<le> (1.65191165::real)"
  by (rule exp_sq_upper[OF exp_quarter_upper]) simp_all

lemma exp_1_upper: "exp 1 \<le> (2.7288121::real)"
  by (rule exp_sq_upper[OF exp_half_upper]) simp_all

lemma exp_2_upper: "exp 2 \<le> (7.44641548::real)"
  by (rule exp_sq_upper[OF exp_1_upper]) simp_all

lemma exp_4_upper: "exp 4 \<le> (55.4491036::real)"
  by (rule exp_sq_upper[OF exp_2_upper]) simp_all

lemma exp_8_upper: "exp 8 \<le> (3074.6031::real)"
  by (rule exp_sq_upper[OF exp_4_upper]) simp_all

lemma exp_16_upper: "exp 16 \<le> (9453184.23::real)"
  by (rule exp_sq_upper[OF exp_8_upper]) simp_all

lemma exp_32_upper: "exp 32 \<le> (89362692100000::real)"
  by (rule exp_sq_upper[OF exp_16_upper]) simp_all

lemma exp_28_upper: "exp 28 \<le> (1620000000000::real)"
proof -
  have "exp (16 + 8 + 4) \<le> (9453184.23 * 3074.6031 * 55.4491036::real)"
    by (intro exp_add_upper exp_16_upper exp_8_upper exp_4_upper)
  then show ?thesis by simp
qed

lemma exp_small_upper: "exp (50 / 1551) \<le> (1.0333::real)"
  using exp_bound[of "50 / 1551::real"] by (simp add: power2_eq_square)

lemma exp_7_halves_upper: "exp (7/2) \<le> (33.6::real)"
proof -
  have "exp (2 + 1) \<le> (7.44641548 * 2.7288121::real)"
    by (rule exp_add_upper[OF exp_2_upper exp_1_upper])
  then have "exp (2 + 1 + 1/2) \<le> (7.44641548 * 2.7288121 * 1.65191165::real)"
    by (rule exp_add_upper[OF _ exp_half_upper])
  then show ?thesis by simp
qed

subsection \<open>Iteration and search\<close>

lemma funpow_Suc_inner: "(f ^^ Suc k) x = (f ^^ k) (f x)"
  by (induction k) simp_all

lemma find_map_list: "find P (map f xs) = map_option f (find (P \<circ> f) xs)"
  by (induction xs) simp_all

subsection \<open>Descending sequences\<close>

lemma descent_telescope:
  fixes s :: "nat \<Rightarrow> real"
  assumes "\<And>i. i < m \<Longrightarrow> s (Suc i) + d \<le> s i"
  shows "s m + real m * d \<le> s 0"
  using assms
proof (induction m)
  case 0
  then show ?case by simp
next
  case (Suc m)
  then have "s m + real m * d \<le> s 0" and "s (Suc m) + d \<le> s m"
    by simp_all
  then show ?case
    by (simp add: algebra_simps)
qed

end
