(* ===== verification/Newton_Loop.thy ===== *)
theory Newton_Loop
  imports Prelude
begin

text \<open>
  The control structure of \<open>solar_cell_current\<close> (src/solarcell.py, lines 26--40),
  independent of the function being solved:
  \<^verbatim>\<open>
  J_guess = Jsc
  for _ in range(100):
      ... J_new = step(J_guess)
      if abs(J_new - J_guess) < 1e-10: break
      J_guess = J_new
  return J_new
  \<close>
  \<open>newton_loop step conv k J_guess J_new\<close> runs the remaining \<open>k\<close> passes of the
  \<^verbatim>\<open>for\<close> loop from the current values of the two local variables; \<open>J_new\<close> is
  \<open>None\<close> while the Python variable is still unbound, so that \<^verbatim>\<open>return J_new\<close>
  after a loop of zero passes (an \<^verbatim>\<open>UnboundLocalError\<close>) is the value \<open>None\<close>.
  The loop is stated over any type and any step and stopping test; the diode theory
  instantiates it.  \<open>newton_spec\<close> is the reference reading of the loop: the
  result is the iterate right after the first index whose step passes the test, or the
  last iterate when no index among the \<open>N\<close> passes does.
\<close>

fun newton_loop :: "('a \<Rightarrow> 'a) \<Rightarrow> ('a \<Rightarrow> 'a \<Rightarrow> bool) \<Rightarrow> nat \<Rightarrow> 'a \<Rightarrow> 'a option \<Rightarrow> 'a option" where
  "newton_loop step conv 0 J_guess J_new = J_new"
| "newton_loop step conv (Suc k) J_guess J_new =
     (let J_new' = step J_guess
      in if conv J_new' J_guess then Some J_new'
         else newton_loop step conv k J_new' (Some J_new'))"

definition break_index :: "('a \<Rightarrow> 'a) \<Rightarrow> ('a \<Rightarrow> 'a \<Rightarrow> bool) \<Rightarrow> nat \<Rightarrow> 'a \<Rightarrow> nat option" where
  "break_index step conv N g = find (\<lambda>i. conv ((step ^^ Suc i) g) ((step ^^ i) g)) [0..<N]"

definition newton_spec :: "('a \<Rightarrow> 'a) \<Rightarrow> ('a \<Rightarrow> 'a \<Rightarrow> bool) \<Rightarrow> nat \<Rightarrow> 'a \<Rightarrow> 'a option" where
  "newton_spec step conv N g =
     (if N = 0 then None
      else Some ((step ^^ Suc (case break_index step conv N g of Some j \<Rightarrow> j | None \<Rightarrow> N - 1)) g))"

subsection \<open>The loop against its reference reading\<close>

lemma break_index_0 [simp]: "break_index step conv 0 g = None"
  by (simp add: break_index_def)

lemma break_index_Suc:
  "break_index step conv (Suc N) g =
     (if conv (step g) g then Some 0 else map_option Suc (break_index step conv N (step g)))"
proof -
  have "[0..<Suc N] = 0 # map Suc [0..<N]"
    by (simp add: map_Suc_upt upt_conv_Cons)
  then show ?thesis
    by (simp add: break_index_def find_map_list comp_def funpow_swap1 del: upt_Suc)
qed

lemma newton_loop_spec_gen:
  "newton_loop step conv N g J_new = (if N = 0 then J_new else newton_spec step conv N g)"
proof (induction N arbitrary: g J_new)
  case 0
  then show ?case by simp
next
  case (Suc N)
  show ?case
  proof (cases "conv (step g) g")
    case True
    then show ?thesis
      by (simp add: newton_spec_def break_index_Suc)
  next
    case False
    then have "newton_loop step conv (Suc N) g J_new = newton_loop step conv N (step g) (Some (step g))"
      by (simp add: Let_def)
    also have "\<dots> = (if N = 0 then Some (step g) else newton_spec step conv N (step g))"
      by (rule Suc.IH)
    also have "\<dots> = newton_spec step conv (Suc N) g"
      using False
      by (cases N) (auto simp: newton_spec_def break_index_Suc funpow_swap1 split: option.splits)
    finally show ?thesis by simp
  qed
qed

lemma break_index_SomeD:
  "break_index step conv N g = Some j \<Longrightarrow>
     j < N \<and> conv ((step ^^ Suc j) g) ((step ^^ j) g) \<and>
     (\<forall>i<j. \<not> conv ((step ^^ Suc i) g) ((step ^^ i) g))"
  by (auto simp: break_index_def find_Some_iff)

lemma break_index_NoneD:
  "break_index step conv N g = None \<Longrightarrow> i < N \<Longrightarrow> \<not> conv ((step ^^ Suc i) g) ((step ^^ i) g)"
  by (auto simp: break_index_def find_None_iff)

lemma newton_loop_iterate:
  "newton_loop step conv N g None = Some r \<Longrightarrow> \<exists>j<N. r = (step ^^ Suc j) g"
  by (cases N; cases "break_index step conv N g")
     (auto simp: newton_loop_spec_gen newton_spec_def dest: break_index_SomeD split: if_splits)

lemma newton_loop_invariant:
  assumes "0 < N" and "\<And>j. j < N \<Longrightarrow> P ((step ^^ Suc j) g)"
  shows "\<exists>r. newton_loop step conv N g None = Some r \<and> P r"
proof -
  obtain r where r: "newton_loop step conv N g None = Some r"
    using assms(1) by (simp add: newton_loop_spec_gen newton_spec_def)
  with assms(2) show ?thesis
    by (auto dest: newton_loop_iterate)
qed

lemma newton_loop_breaks:
  assumes "i < N" "conv ((step ^^ Suc i) g) ((step ^^ i) g)"
  shows "\<exists>j\<le>i. newton_loop step conv N g None = Some ((step ^^ Suc j) g) \<and>
                conv ((step ^^ Suc j) g) ((step ^^ j) g)"
proof -
  have "break_index step conv N g \<noteq> None"
    using assms break_index_NoneD[of step conv N g i] by blast
  then obtain j where j: "break_index step conv N g = Some j"
    by blast
  then have "j \<le> i"
    using assms(2) break_index_SomeD[OF j] not_le by blast
  moreover have "newton_loop step conv N g None = Some ((step ^^ Suc j) g)"
    using assms(1) j by (simp add: newton_loop_spec_gen newton_spec_def)
  ultimately show ?thesis
    using break_index_SomeD[OF j] by blast
qed

lemma newton_loop_const:
  assumes "conv c c" "0 < N"
  shows "newton_loop (\<lambda>_. c) conv N g J_new = Some c"
proof (cases N)
  case 0
  with assms show ?thesis by simp
next
  case (Suc M)
  with assms show ?thesis
    by (cases M) (simp_all add: Let_def)
qed

subsection \<open>Properties of the loop\<close>

text \<open>
  C5: the loop computes exactly its reference reading: the value returned is the iterate
  right after the first pass whose stopping test succeeds, or the last iterate when the
  test never succeeds within the cap.
\<close>

theorem newton_loop_refines_spec:
  "newton_loop step conv N g None = newton_spec step conv N g"
  by (simp add: newton_loop_spec_gen newton_spec_def)

text \<open>
  C6: what the loop returns: some iterate \<open>step\<^sup>j\<^sup>+\<^sup>1 g\<close> with \<open>j < N\<close> such that
  no earlier pass met the stopping test, and either this pass met it (the
  \<^verbatim>\<open>break\<close>) or it was the last of the \<open>N\<close> passes.
\<close>

theorem newton_loop_result:
  assumes "newton_loop step conv N g None = Some r"
  shows "\<exists>j<N. r = (step ^^ Suc j) g \<and>
           (conv r ((step ^^ j) g) \<or> Suc j = N) \<and>
           (\<forall>i<j. \<not> conv ((step ^^ Suc i) g) ((step ^^ i) g))"
proof (cases "break_index step conv N g")
  case None
  from assms obtain M where N: "N = Suc M"
    by (cases N) simp_all
  with None assms have "r = (step ^^ Suc M) g"
    by (simp add: newton_loop_spec_gen newton_spec_def)
  moreover have "\<forall>i<M. \<not> conv ((step ^^ Suc i) g) ((step ^^ i) g)"
    using break_index_NoneD[OF None] N by (simp del: funpow.simps)
  ultimately show ?thesis
    using N by (intro exI[of _ M]) (simp del: funpow.simps)
next
  case (Some j)
  with assms have "r = (step ^^ Suc j) g"
    by (auto simp: newton_loop_spec_gen newton_spec_def split: if_splits)
  with break_index_SomeD[OF Some] show ?thesis
    by (intro exI[of _ j]) (simp del: funpow.simps)
qed

theorem newton_loop_result_witness:
  "newton_loop Suc (\<lambda>a b. (3::nat) \<le> a) 5 0 None = Some 3 \<and>
   (\<exists>j<5. (3::nat) = (Suc ^^ Suc j) 0 \<and> (3 \<le> (3::nat) \<or> Suc j = 5) \<and>
      (\<forall>i<j. \<not> 3 \<le> (Suc ^^ Suc i) (0::nat)))"
proof -
  have run: "newton_loop Suc (\<lambda>a b. (3::nat) \<le> a) 5 0 None = Some 3"
    by (simp add: numeral_eq_Suc)
  show ?thesis
    using newton_loop_result[OF run] run by simp
qed

end
