(* ===== verification/Diode_Model.thy ===== *)
theory Diode_Model
  imports Prelude Newton_Loop
begin

text \<open>
  The diode-model solver of src/solarcell.py (\<^verbatim>\<open>solar_cell_current\<close>, lines 20--40),
  over exact real arithmetic.  The cell parameters are a record; \<open>Vt\<close> is the module
  constant of line 13 in the source and a field here, so that the model is a function of
  the whole parameter set.  \<open>diode_f\<close> and \<open>diode_df\<close> are the expressions of lines 30
  and 32, \<open>newton_step\<close> line 34, \<open>step_converged\<close> the test of line 36, and
  \<open>solar_cell_current\<close> the loop of lines 26--40 as an instance of
  \<open>Newton_Loop.newton_loop\<close>.  \<open>diode_solution\<close> is the abstract specification: the
  unique current density that solves the single-diode equation.
\<close>

record cell_params =
  Jsc :: real
  J0 :: real
  n :: real
  Vt :: real
  Rs :: real
  Rsh :: real

definition valid_params :: "cell_params \<Rightarrow> bool" where
  "valid_params p \<longleftrightarrow> 0 \<le> J0 p \<and> 0 < n p \<and> 0 < Vt p \<and> 0 \<le> Rs p \<and> 0 < Rsh p"

definition exp_arg :: "cell_params \<Rightarrow> voltage \<Rightarrow> current_density \<Rightarrow> real" where
  [diode_defs]: "exp_arg p V J = (V + J * Rs p) / (n p * Vt p)"

definition diode_f :: "cell_params \<Rightarrow> voltage \<Rightarrow> current_density \<Rightarrow> real" where
  [diode_defs]: "diode_f p V J_guess =
     J_guess - Jsc p + J0 p * (exp (exp_arg p V J_guess) - 1) + (V + J_guess * Rs p) / Rsh p"

definition diode_df :: "cell_params \<Rightarrow> voltage \<Rightarrow> current_density \<Rightarrow> real" where
  [diode_defs]: "diode_df p V J_guess =
     1 + (J0 p * Rs p / (n p * Vt p)) * exp (exp_arg p V J_guess) + Rs p / Rsh p"

definition newton_step :: "cell_params \<Rightarrow> voltage \<Rightarrow> current_density \<Rightarrow> current_density" where
  "newton_step p V J_guess = J_guess - diode_f p V J_guess / diode_df p V J_guess"

definition step_converged :: "current_density \<Rightarrow> current_density \<Rightarrow> bool" where
  "step_converged J_new J_guess \<longleftrightarrow> \<bar>J_new - J_guess\<bar> < 1 / 10 ^ 10"

definition solar_cell_current :: "cell_params \<Rightarrow> voltage \<Rightarrow> current_density option" where
  "solar_cell_current p V = newton_loop (newton_step p V) step_converged 100 (Jsc p) None"

definition diode_solution :: "cell_params \<Rightarrow> voltage \<Rightarrow> current_density" where
  "diode_solution p V = (THE J. diode_f p V J = 0)"

definition ref_params :: cell_params where
  "ref_params = \<lparr>Jsc = 30.52638788, J0 = 1 / 10 ^ 12, n = 1.2, Vt = 0.02585, Rs = 0.001, Rsh = 10000\<rparr>"

abbreviation newton_iter :: "cell_params \<Rightarrow> voltage \<Rightarrow> nat \<Rightarrow> current_density" where
  "newton_iter p V k \<equiv> (newton_step p V ^^ k) (Jsc p)"

subsection \<open>The residual and its derivative\<close>

lemma valid_paramsD:
  assumes "valid_params p"
  shows "0 \<le> J0 p" "0 < n p * Vt p" "0 \<le> Rs p" "0 < Rsh p"
  using assms by (simp_all add: valid_params_def)

lemma exp_arg_mono:
  "valid_params p \<Longrightarrow> J \<le> K \<Longrightarrow> exp_arg p V J \<le> exp_arg p V K"
  using valid_paramsD[of p]
  by (auto simp: exp_arg_def intro!: divide_right_mono mult_right_mono)

lemma exp_arg_diff:
  "valid_params p \<Longrightarrow> exp_arg p V K - exp_arg p V J = (K - J) * Rs p / (n p * Vt p)"
  by (simp add: exp_arg_def diff_divide_distrib[symmetric] algebra_simps)

lemma diode_df_ge_1:
  assumes "valid_params p"
  shows "1 \<le> diode_df p V J"
  using valid_paramsD[OF assms]
  by (simp add: diode_df_def)

lemma diode_f_diff_ge:
  assumes "valid_params p" "J \<le> K"
  shows "K - J \<le> diode_f p V K - diode_f p V J"
proof -
  have "J0 p * exp (exp_arg p V J) \<le> J0 p * exp (exp_arg p V K)"
    using assms exp_arg_mono valid_paramsD(1) by (simp add: mult_left_mono)
  moreover have "J * Rs p / Rsh p \<le> K * Rs p / Rsh p"
    using assms valid_paramsD[OF assms(1)] by (simp add: divide_right_mono mult_right_mono)
  ultimately show ?thesis
    by (simp add: diode_f_def add_divide_distrib algebra_simps)
qed

lemma diode_f_tangent:
  assumes "valid_params p"
  shows "diode_f p V J + diode_df p V J * (K - J) \<le> diode_f p V K"
proof -
  let ?a = "exp_arg p V J" and ?b = "exp_arg p V K" and ?c = "n p * Vt p"
  have "exp ?a * (1 + (?b - ?a)) \<le> exp ?b"
    by (rule exp_tangent_lower)
  then have "J0 p * (exp ?a * (1 + (K - J) * Rs p / ?c)) \<le> J0 p * exp ?b"
    using assms valid_paramsD(1) by (simp add: exp_arg_diff mult_left_mono)
  then show ?thesis
    by (simp add: diode_f_def diode_df_def add_divide_distrib diff_divide_distrib algebra_simps)
qed

lemma diode_f_strict_mono:
  "valid_params p \<Longrightarrow> J < K \<Longrightarrow> diode_f p V J < diode_f p V K"
  using diode_f_diff_ge[of p J K V] by simp

lemma diode_f_le_iff:
  "valid_params p \<Longrightarrow> diode_f p V J \<le> diode_f p V K \<longleftrightarrow> J \<le> K"
  using diode_f_strict_mono[of p K J V] diode_f_strict_mono[of p J K V]
  by (cases J K rule: linorder_cases) auto

lemma diode_f_has_derivative:
  "(diode_f p V has_real_derivative diode_df p V J) (at J)"
  unfolding diode_defs
  by (auto intro!: derivative_eq_intros simp: divide_inverse algebra_simps)

lemma diode_f_continuous: "continuous_on UNIV (diode_f p V)"
  using diode_f_has_derivative
  by (intro continuous_at_imp_continuous_on) (auto intro: DERIV_isCont)

lemma diode_f_root_exists:
  assumes "valid_params p"
  shows "\<exists>J. diode_f p V J = 0"
proof -
  let ?r = "\<bar>diode_f p V 0\<bar>"
  have lo: "diode_f p V (- ?r) \<le> 0"
    using diode_f_diff_ge[OF assms, of "- ?r" 0 V] by simp
  have hi: "0 \<le> diode_f p V ?r"
    using diode_f_diff_ge[OF assms, of 0 ?r V] by simp
  have "continuous_on {- ?r..?r} (diode_f p V)"
    using diode_f_continuous continuous_on_subset by blast
  then show ?thesis
    using IVT'[of "diode_f p V" "- ?r" 0 ?r] lo hi by auto
qed

lemma diode_solution_root:
  assumes "valid_params p"
  shows "diode_f p V (diode_solution p V) = 0"
proof -
  have "\<exists>!J. diode_f p V J = 0"
    using diode_f_root_exists[OF assms] diode_f_le_iff[OF assms]
    by (metis order_antisym order_refl)
  then show ?thesis
    unfolding diode_solution_def by (rule theI')
qed

lemma diode_solution_le_iff:
  "valid_params p \<Longrightarrow> diode_solution p V \<le> J \<longleftrightarrow> 0 \<le> diode_f p V J"
  using diode_f_le_iff[of p V "diode_solution p V" J] diode_solution_root[of p V] by simp

lemma diode_solution_ge_iff:
  "valid_params p \<Longrightarrow> J \<le> diode_solution p V \<longleftrightarrow> diode_f p V J \<le> 0"
  using diode_f_le_iff[of p V J "diode_solution p V"] diode_solution_root[of p V] by simp

lemma diode_solution_gap:
  "valid_params p \<Longrightarrow> diode_solution p V \<le> J \<Longrightarrow> J - diode_solution p V \<le> diode_f p V J"
  using diode_f_diff_ge[of p "diode_solution p V" J V] diode_solution_root[of p V] by simp

subsection \<open>One Newton step\<close>

lemma newton_step_eq:
  "valid_params p \<Longrightarrow> diode_df p V J * (J - newton_step p V J) = diode_f p V J"
  using diode_df_ge_1[of p V J] by (simp add: newton_step_def)

lemma newton_step_overshoot:
  assumes "valid_params p"
  shows "0 \<le> diode_f p V (newton_step p V J)"
  using diode_f_tangent[OF assms, of V J "newton_step p V J"] newton_step_eq[OF assms, of V J]
  by (simp add: algebra_simps)

lemma newton_step_le:
  assumes "valid_params p" "0 \<le> diode_f p V J"
  shows "newton_step p V J \<le> J"
  using assms diode_df_ge_1[OF assms(1), of V J] by (simp add: newton_step_def)

lemma newton_step_residual_bound:
  assumes "valid_params p"
  shows "diode_f p V (newton_step p V J)
           \<le> (diode_df p V J - diode_df p V (newton_step p V J)) * (J - newton_step p V J)"
  using diode_f_tangent[OF assms, of V "newton_step p V J" J] newton_step_eq[OF assms, of V J]
  by (simp add: algebra_simps)

lemma newton_step_upper:
  assumes "valid_params p"
  shows "newton_step p V J \<le> J + max 0 (- diode_f p V J)"
proof (cases "0 \<le> diode_f p V J")
  case True
  then show ?thesis using newton_step_le[OF assms True] by simp
next
  case False
  have d: "1 \<le> diode_df p V J"
    by (rule diode_df_ge_1[OF assms])
  then have "diode_f p V J * diode_df p V J \<le> diode_f p V J * 1"
    using False by (intro mult_left_mono_neg) simp_all
  then have "- diode_f p V J / diode_df p V J \<le> - diode_f p V J"
    using d by (simp add: le_divide_eq)
  then show ?thesis
    by (simp add: newton_step_def)
qed

lemma diode_solution_less_iff:
  "valid_params p \<Longrightarrow> diode_solution p V < J \<longleftrightarrow> 0 < diode_f p V J"
  using diode_solution_ge_iff[of p J V] by linarith

lemma diode_f_V_strict_mono:
  assumes "valid_params p" "V1 < V2"
  shows "diode_f p V1 J < diode_f p V2 J"
proof -
  note pos = valid_paramsD[OF assms(1)]
  have "exp_arg p V1 J \<le> exp_arg p V2 J"
    using assms pos by (simp add: exp_arg_def divide_right_mono)
  then have "J0 p * exp (exp_arg p V1 J) \<le> J0 p * exp (exp_arg p V2 J)"
    using pos by (simp add: mult_left_mono)
  moreover have "(V1 + J * Rs p) / Rsh p < (V2 + J * Rs p) / Rsh p"
    using assms pos by (simp add: divide_strict_right_mono)
  ultimately show ?thesis
    by (simp add: diode_f_def algebra_simps)
qed

lemma diode_df_diff_le:
  assumes "valid_params p" "K \<le> J"
  shows "diode_df p V J - diode_df p V K
           \<le> (diode_df p V J - 1) * ((J - K) * Rs p / (n p * Vt p))"
proof -
  let ?a = "exp_arg p V J" and ?b = "exp_arg p V K" and ?c = "J0 p * Rs p / (n p * Vt p)"
  note pos = valid_paramsD[OF assms(1)]
  have c: "0 \<le> ?c"
    using pos by simp
  have eq: "diode_df p V J - diode_df p V K = ?c * (exp ?a - exp ?b)"
    by (simp add: diode_df_def right_diff_distrib)
  have "exp ?a * (1 + (?b - ?a)) \<le> exp ?b"
    by (rule exp_tangent_lower)
  then have "?c * (exp ?a - exp ?b) \<le> ?c * (exp ?a * (?a - ?b))"
    using c by (intro mult_left_mono) (simp_all add: algebra_simps)
  also have "?a - ?b = (J - K) * Rs p / (n p * Vt p)"
    using exp_arg_diff[OF assms(1), of V J K] by simp
  also have "?c * (exp ?a * ((J - K) * Rs p / (n p * Vt p)))
               \<le> (diode_df p V J - 1) * ((J - K) * Rs p / (n p * Vt p))"
  proof -
    have ce: "?c * exp ?a \<le> diode_df p V J - 1"
      using pos by (simp add: diode_df_def)
    have t: "0 \<le> (J - K) * Rs p / (n p * Vt p)"
      using pos assms(2) by simp
    show ?thesis
      using mult_right_mono[OF ce t] by (simp add: mult.assoc)
  qed
  finally show ?thesis
    by (simp only: eq)
qed

subsection \<open>The iterates of the solver\<close>

lemma newton_iter_overshoot:
  "valid_params p \<Longrightarrow> 0 \<le> diode_f p V (newton_iter p V (Suc k))"
  using newton_step_overshoot by simp

lemma newton_iter_antitone_step:
  "valid_params p \<Longrightarrow> 0 < k \<Longrightarrow> newton_iter p V (Suc k) \<le> newton_iter p V k"
  using newton_iter_overshoot[of p V "k - 1"] newton_step_le[of p V "newton_iter p V k"]
  by simp

lemma newton_iter_le_first:
  assumes "valid_params p" "0 < k"
  shows "newton_iter p V k \<le> newton_iter p V 1"
  using assms(2)
proof (induction k)
  case 0
  then show ?case by simp
next
  case (Suc k)
  show ?case
  proof (cases "k = 0")
    case True
    then show ?thesis by simp
  next
    case False
    then have "newton_iter p V (Suc k) \<le> newton_iter p V k"
      using newton_iter_antitone_step[OF assms(1)] by simp
    with Suc.IH False show ?thesis by simp
  qed
qed

lemma valid_ref_params: "valid_params ref_params"
  by (simp add: valid_params_def ref_params_def)

lemma newton_step_Rs_zero:
  assumes "valid_params p" "Rs p = 0"
  shows "newton_step p V J = Jsc p - J0 p * (exp (V / (n p * Vt p)) - 1) - V / Rsh p"
  using assms by (simp add: newton_step_def diode_defs)

lemma newton_iter_le_bound:
  assumes "valid_params p"
  shows "newton_iter p V k \<le> Jsc p + max 0 (J0 p - (V + Jsc p * Rs p) / Rsh p)"
proof (cases "k = 0")
  case True
  then show ?thesis by simp
next
  case False
  have "0 \<le> J0 p * exp (exp_arg p V (Jsc p))"
    using valid_paramsD(1)[OF assms] by simp
  then have "- diode_f p V (Jsc p) \<le> J0 p - (V + Jsc p * Rs p) / Rsh p"
    by (simp add: diode_f_def algebra_simps)
  then have "newton_iter p V 1 \<le> Jsc p + max 0 (J0 p - (V + Jsc p * Rs p) / Rsh p)"
    using newton_step_upper[OF assms, of V "Jsc p"] by simp
  then show ?thesis
    using newton_iter_le_first[OF assms, of k V] False by simp
qed

lemma solar_cell_current_residual:
  assumes "valid_params p"
  shows "\<exists>J. solar_cell_current p V = Some J \<and> 0 \<le> diode_f p V J \<and>
             J \<le> Jsc p + max 0 (J0 p - (V + Jsc p * Rs p) / Rsh p)"
proof -
  have "\<exists>r. newton_loop (newton_step p V) step_converged 100 (Jsc p) None = Some r
            \<and> 0 \<le> diode_f p V r \<and> r \<le> Jsc p + max 0 (J0 p - (V + Jsc p * Rs p) / Rsh p)"
    by (rule newton_loop_invariant)
       (simp_all add: newton_iter_overshoot[OF assms] newton_iter_le_bound[OF assms] del: funpow.simps)
  then show ?thesis
    by (simp add: solar_cell_current_def)
qed

subsection \<open>Properties of the solver\<close>

text \<open>
  C1: for every valid parameter set and every voltage, \<open>solar_cell_current\<close> returns a
  value, and the value lies between the true solution of the single-diode equation and
  \<open>Jsc + max 0 (J0 - (V + Jsc Rs) / Rsh)\<close>: the solver errs only towards larger
  currents, and by a bounded amount.
\<close>

theorem solar_cell_current_upper:
  assumes "valid_params p"
  shows "\<exists>J. solar_cell_current p V = Some J \<and> diode_solution p V \<le> J \<and>
             J \<le> Jsc p + max 0 (J0 p - (V + Jsc p * Rs p) / Rsh p)"
  using solar_cell_current_residual[OF assms, of V] diode_solution_le_iff[OF assms] by auto

theorem solar_cell_current_upper_witness:
  "valid_params ref_params \<and>
   (\<exists>J. solar_cell_current ref_params 0.5 = Some J \<and> diode_solution ref_params 0.5 \<le> J \<and>
        J \<le> Jsc ref_params + max 0 (J0 ref_params - (0.5 + Jsc ref_params * Rs ref_params) / Rsh ref_params))"
  using solar_cell_current_upper[of ref_params "0.5"] valid_ref_params by blast

text \<open>
  C2: the single-diode equation \<open>f(J) = 0\<close> of line 30 has exactly one solution for
  every voltage, and \<open>diode_solution\<close> is that solution.
\<close>

theorem diode_solution_unique:
  assumes "valid_params p"
  shows "diode_f p V J = 0 \<longleftrightarrow> J = diode_solution p V"
  using diode_solution_le_iff[OF assms, of V J] diode_solution_ge_iff[OF assms, of J V]
  by auto

theorem diode_solution_unique_witness:
  "valid_params ref_params \<and>
   (diode_f ref_params 0 (diode_solution ref_params 0) = 0
      \<longleftrightarrow> diode_solution ref_params 0 = diode_solution ref_params 0)"
  using diode_solution_unique[of ref_params 0 "diode_solution ref_params 0"] valid_ref_params
  by simp

text \<open>
  C3: a single Newton step (line 34) from any guess lands at or above the solution:
  the residual is convex and increasing, so its tangent lies below it.
\<close>

theorem newton_step_never_undershoots:
  assumes "valid_params p"
  shows "diode_solution p V \<le> newton_step p V J"
  using newton_step_overshoot[OF assms] diode_solution_le_iff[OF assms] by simp

theorem newton_step_never_undershoots_witness:
  "valid_params ref_params \<and> diode_solution ref_params 1 \<le> newton_step ref_params 1 0"
  using newton_step_never_undershoots[of ref_params 1 0] valid_ref_params by simp

text \<open>
  C4: the expression \<open>df\<close> of line 32 is the derivative of the residual \<open>f\<close> of
  line 30 with respect to the current density, and it is at least 1, so the division of
  line 34 never divides by zero.
\<close>

theorem diode_df_derivative:
  assumes "valid_params p"
  shows "(diode_f p V has_real_derivative diode_df p V J) (at J) \<and> 1 \<le> diode_df p V J"
  using diode_f_has_derivative diode_df_ge_1[OF assms] by simp

theorem diode_df_derivative_witness:
  "valid_params ref_params \<and>
   (diode_f ref_params 0 has_real_derivative diode_df ref_params 0 1) (at 1) \<and>
   1 \<le> diode_df ref_params 0 1"
  using diode_df_derivative[of ref_params 0 1] valid_ref_params by simp

text \<open>
  C7: a step that passes the convergence test of line 36 returns a value above the
  solution by at most the change of \<open>df\<close> over the step times the tolerance
  \<open>10\<^sup>-\<^sup>1\<^sup>0\<close>.
\<close>

theorem newton_converged_error:
  assumes "valid_params p" "step_converged (newton_step p V J) J"
  shows "0 \<le> newton_step p V J - diode_solution p V \<and>
         newton_step p V J - diode_solution p V
           \<le> \<bar>diode_df p V J - diode_df p V (newton_step p V J)\<bar> / 10 ^ 10"
proof -
  let ?N = "newton_step p V J" and ?s = "diode_solution p V"
  let ?d = "diode_df p V J - diode_df p V ?N"
  have above: "?s \<le> ?N"
    using newton_step_overshoot[OF assms(1)] diode_solution_le_iff[OF assms(1)] by simp
  have "?N - ?s \<le> diode_f p V ?N"
    by (rule diode_solution_gap[OF assms(1) above])
  also have "\<dots> \<le> ?d * (J - ?N)"
    by (rule newton_step_residual_bound[OF assms(1)])
  also have "\<dots> \<le> \<bar>?d\<bar> * \<bar>J - ?N\<bar>"
    by (metis abs_ge_self abs_mult)
  also have "\<dots> \<le> \<bar>?d\<bar> * (1 / 10 ^ 10)"
    using assms(2) by (intro mult_left_mono) (simp_all add: step_converged_def abs_minus_commute)
  finally show ?thesis
    using above by simp
qed

theorem newton_converged_error_witness:
  "valid_params (ref_params\<lparr>Rs := 0\<rparr>) \<and>
   step_converged (newton_step (ref_params\<lparr>Rs := 0\<rparr>) 0 30.52638788) 30.52638788 \<and>
   0 \<le> newton_step (ref_params\<lparr>Rs := 0\<rparr>) 0 30.52638788 - diode_solution (ref_params\<lparr>Rs := 0\<rparr>) 0 \<and>
   newton_step (ref_params\<lparr>Rs := 0\<rparr>) 0 30.52638788 - diode_solution (ref_params\<lparr>Rs := 0\<rparr>) 0
     \<le> \<bar>diode_df (ref_params\<lparr>Rs := 0\<rparr>) 0 30.52638788
         - diode_df (ref_params\<lparr>Rs := 0\<rparr>) 0 (newton_step (ref_params\<lparr>Rs := 0\<rparr>) 0 30.52638788)\<bar>
         / 10 ^ 10"
proof -
  have v: "valid_params (ref_params\<lparr>Rs := 0\<rparr>)"
    by (simp add: valid_params_def ref_params_def)
  have c: "step_converged (newton_step (ref_params\<lparr>Rs := 0\<rparr>) 0 30.52638788) 30.52638788"
    by (simp add: step_converged_def newton_step_def diode_defs ref_params_def)
  show ?thesis
    using newton_converged_error[OF v c] v c by simp
qed

text \<open>
  C8: without series resistance the residual is affine in \<open>J\<close> with slope 1, and the
  solver returns the explicit single-diode current
  \<open>Jsc - J0 (exp (V / (n Vt)) - 1) - V / Rsh\<close> exactly.
\<close>

theorem solar_cell_current_Rs_zero:
  assumes "valid_params p" "Rs p = 0"
  shows "solar_cell_current p V = Some (Jsc p - J0 p * (exp (V / (n p * Vt p)) - 1) - V / Rsh p)"
proof -
  let ?c = "Jsc p - J0 p * (exp (V / (n p * Vt p)) - 1) - V / Rsh p"
  have "newton_step p V = (\<lambda>_. ?c)"
    using newton_step_Rs_zero[OF assms] by (simp add: fun_eq_iff)
  then show ?thesis
    by (simp add: solar_cell_current_def newton_loop_const step_converged_def)
qed

theorem solar_cell_current_Rs_zero_witness:
  "valid_params (ref_params\<lparr>Rs := 0\<rparr>) \<and> Rs (ref_params\<lparr>Rs := 0\<rparr>) = 0 \<and>
   solar_cell_current (ref_params\<lparr>Rs := 0\<rparr>) 0 = Some 30.52638788"
proof -
  have v: "valid_params (ref_params\<lparr>Rs := 0\<rparr>)"
    by (simp add: valid_params_def ref_params_def)
  show ?thesis
    using solar_cell_current_Rs_zero[OF v, of 0] v by (simp add: ref_params_def)
qed

text \<open>
  C9: the current density that solves the single-diode equation strictly decreases as
  the applied voltage increases: the J-V curve the program plots falls from left to right.
\<close>

theorem diode_solution_antitone:
  assumes "valid_params p" "V1 < V2"
  shows "diode_solution p V2 < diode_solution p V1"
proof -
  have "diode_f p V1 (diode_solution p V1) = 0"
    by (rule diode_solution_root[OF assms(1)])
  then have "0 < diode_f p V2 (diode_solution p V1)"
    using diode_f_V_strict_mono[OF assms] by metis
  then show ?thesis
    using diode_solution_less_iff[OF assms(1)] by simp
qed

theorem diode_solution_antitone_witness:
  "valid_params ref_params \<and> (0::real) < 1 \<and> diode_solution ref_params 1 < diode_solution ref_params 0"
  using diode_solution_antitone[of ref_params 0 1] valid_ref_params by simp

text \<open>
  C10: the convergence test of line 36 eventually succeeds, within an explicit number
  of passes: for any positive tolerance \<open>tol\<close>, a step shorter than \<open>tol\<close> occurs
  at some pass \<open>k \<le> \<lceil>(J\<^sub>1 - J\<^sup>*) / tol\<rceil> + 1\<close>, where \<open>J\<^sub>1\<close> is the first iterate
  and \<open>J\<^sup>*\<close> the solution; with a cap that large the loop always ends by \<^verbatim>\<open>break\<close>.
\<close>

theorem newton_eventually_converges:
  assumes "valid_params p" "0 < tol"
  shows "\<exists>k \<le> nat \<lceil>(newton_iter p V 1 - diode_solution p V) / tol\<rceil> + 1.
           \<bar>newton_iter p V (Suc k) - newton_iter p V k\<bar> < tol"
proof (rule ccontr)
  define M where "M = nat \<lceil>(newton_iter p V 1 - diode_solution p V) / tol\<rceil>"
  assume "\<not> ?thesis"
  then have big: "tol \<le> \<bar>newton_iter p V (Suc k) - newton_iter p V k\<bar>" if "k \<le> M + 1" for k
    using that by (auto simp: M_def not_less)
  define s where "s i = newton_iter p V (Suc i)" for i
  have "s (Suc i) + tol \<le> s i" if "i < M + 1" for i
    using big[of "Suc i"] that newton_iter_antitone_step[OF assms(1), of "Suc i" V]
    by (simp add: s_def del: funpow.simps)
  then have "s (M + 1) + real (M + 1) * tol \<le> s 0"
    by (rule descent_telescope)
  moreover have "diode_solution p V \<le> s (M + 1)"
    using newton_iter_overshoot[OF assms(1)] diode_solution_le_iff[OF assms(1)]
    by (simp add: s_def del: funpow.simps)
  moreover have "(s 0 - diode_solution p V) / tol \<le> real M"
    by (simp add: M_def s_def real_nat_ceiling_ge)
  then have "s 0 - diode_solution p V \<le> real M * tol"
    using assms(2) by (simp add: divide_le_eq)
  ultimately show False
    using assms(2) by (simp add: algebra_simps)
qed

theorem newton_eventually_converges_witness:
  "valid_params ref_params \<and> (0::real) < 1 / 10 ^ 10 \<and>
   (\<exists>k \<le> nat \<lceil>(newton_iter ref_params 0.5 1 - diode_solution ref_params 0.5) / (1 / 10 ^ 10)\<rceil> + 1.
      \<bar>newton_iter ref_params 0.5 (Suc k) - newton_iter ref_params 0.5 k\<bar> < 1 / 10 ^ 10)"
  using newton_eventually_converges[of ref_params "1 / 10 ^ 10" "0.5"] valid_ref_params by simp

text \<open>
  C11: after the first pass the iterates never increase and never fall below the
  solution: the iteration descends monotonically onto the solution from above.
\<close>

theorem newton_iter_monotone:
  assumes "valid_params p" "0 < k"
  shows "diode_solution p V \<le> newton_iter p V (Suc k) \<and> newton_iter p V (Suc k) \<le> newton_iter p V k"
  using newton_iter_overshoot[OF assms(1), of V k] diode_solution_le_iff[OF assms(1)]
        newton_iter_antitone_step[OF assms]
  by (simp del: funpow.simps)

theorem newton_iter_monotone_witness:
  "valid_params ref_params \<and> (0::nat) < 1 \<and>
   diode_solution ref_params 0 \<le> newton_iter ref_params 0 2 \<and>
   newton_iter ref_params 0 2 \<le> newton_iter ref_params 0 1"
  using newton_iter_monotone[of ref_params 1 0] valid_ref_params by (simp add: numeral_2_eq_2)

text \<open>
  C12: every exponent \<open>(V + J Rs) / (n Vt)\<close> that lines 30 and 32 pass to
  \<^verbatim>\<open>np.exp\<close> during a solve is bounded by its value at the iterate bound
  \<open>Jsc + max 0 (J0 - (V + Jsc Rs) / Rsh)\<close>.
\<close>

theorem newton_exp_arg_bound:
  assumes "valid_params p"
  shows "exp_arg p V (newton_iter p V k)
           \<le> exp_arg p V (Jsc p + max 0 (J0 p - (V + Jsc p * Rs p) / Rsh p))"
  using exp_arg_mono[OF assms newton_iter_le_bound[OF assms]] by simp

theorem newton_exp_arg_bound_witness:
  "valid_params ref_params \<and>
   exp_arg ref_params 1 (newton_iter ref_params 1 3)
     \<le> exp_arg ref_params 1 (Jsc ref_params + max 0 (J0 ref_params - (1 + Jsc ref_params * Rs ref_params) / Rsh ref_params))"
  using newton_exp_arg_bound[of ref_params 1 3] valid_ref_params by blast

text \<open>
  C19: Newton's method converges quadratically on the diode equation: from any guess
  \<open>J\<close> at or above the solution \<open>J\<^sup>*\<close>, the next error is at most
  \<open>Rs / (n Vt) (df(J) - 1) (J - J\<^sup>*)\<^sup>2\<close>.  Without series resistance one step is exact.
\<close>

theorem newton_quadratic_convergence:
  assumes "valid_params p" "diode_solution p V \<le> J"
  shows "newton_step p V J - diode_solution p V
           \<le> Rs p / (n p * Vt p) * (diode_df p V J - 1) * (J - diode_solution p V)\<^sup>2"
proof -
  let ?N = "newton_step p V J" and ?s = "diode_solution p V"
  let ?q = "Rs p / (n p * Vt p)"
  note pos = valid_paramsD[OF assms(1)]
  have fJ: "0 \<le> diode_f p V J"
    using assms diode_solution_le_iff by blast
  have sN: "?s \<le> ?N"
    using newton_step_overshoot[OF assms(1)] diode_solution_le_iff[OF assms(1)] by simp
  have NJ: "?N \<le> J"
    by (rule newton_step_le[OF assms(1) fJ])
  have d1: "0 \<le> diode_df p V J - 1"
    using diode_df_ge_1[OF assms(1)] by simp
  have q: "0 \<le> ?q"
    using pos by simp
  have "?N - ?s \<le> diode_f p V ?N"
    by (rule diode_solution_gap[OF assms(1) sN])
  also have "\<dots> \<le> (diode_df p V J - diode_df p V ?N) * (J - ?N)"
    by (rule newton_step_residual_bound[OF assms(1)])
  also have "\<dots> \<le> (diode_df p V J - 1) * ((J - ?N) * Rs p / (n p * Vt p)) * (J - ?N)"
    using diode_df_diff_le[OF assms(1) NJ, of V] NJ by (intro mult_right_mono) simp_all
  also have "\<dots> = ?q * (diode_df p V J - 1) * (J - ?N)\<^sup>2"
    using pos by (simp add: power2_eq_square field_simps)
  also have "\<dots> \<le> ?q * (diode_df p V J - 1) * (J - ?s)\<^sup>2"
  proof -
    have "(J - ?N)\<^sup>2 \<le> (J - ?s)\<^sup>2"
      using sN NJ by (intro power_mono) simp_all
    moreover have "0 \<le> ?q * (diode_df p V J - 1)"
      using q d1 by (rule mult_nonneg_nonneg)
    ultimately show ?thesis
      by (rule mult_left_mono)
  qed
  finally show ?thesis .
qed

theorem newton_quadratic_convergence_witness:
  "valid_params ref_params \<and> diode_solution ref_params 0.9 \<le> newton_iter ref_params 0.9 1 \<and>
   newton_step ref_params 0.9 (newton_iter ref_params 0.9 1) - diode_solution ref_params 0.9
     \<le> Rs ref_params / (n ref_params * Vt ref_params) * (diode_df ref_params 0.9 (newton_iter ref_params 0.9 1) - 1)
        * (newton_iter ref_params 0.9 1 - diode_solution ref_params 0.9)\<^sup>2"
proof -
  have v: "valid_params ref_params" by (rule valid_ref_params)
  have a: "diode_solution ref_params 0.9 \<le> newton_iter ref_params 0.9 1"
    using newton_step_overshoot[OF v] diode_solution_le_iff[OF v] by simp
  show ?thesis
    using newton_quadratic_convergence[OF v a] v a by blast
qed

end
