(* ===== verification/Newton_Convergence.thy ===== *)
theory Newton_Convergence
  imports Diode_Model
begin

text \<open>
  The limit behaviour of the Newton iteration of \<open>Diode_Model.solar_cell_current\<close> when
  the pass cap of line 28 is removed: the iterates \<open>newton_iter p V k\<close> converge to the
  solution of the single-diode equation.  The proof uses the monotone descent of the
  iterates (bounded below by the solution), the continuity of the Newton update, and the
  fact that its only fixed point is the solution.
\<close>

lemma diode_df_continuous: "continuous_on UNIV (diode_df p V)"
  unfolding diode_defs divide_inverse by (intro continuous_intros)

lemma newton_step_isCont:
  assumes "valid_params p"
  shows "isCont (newton_step p V) J"
proof -
  have "isCont (diode_f p V) J"
    using diode_f_has_derivative by (rule DERIV_isCont)
  moreover have "isCont (diode_df p V) J"
    using diode_df_continuous continuous_on_eq_continuous_at by blast
  moreover have "diode_df p V J \<noteq> 0"
    using diode_df_ge_1[OF assms, of V J] by simp
  ultimately show ?thesis
    unfolding newton_step_def[abs_def] by (intro continuous_intros) simp_all
qed

lemma newton_iter_decseq:
  assumes "valid_params p"
  shows "decseq (\<lambda>k. newton_iter p V (Suc k))"
proof (rule decseq_SucI)
  fix k
  show "newton_iter p V (Suc (Suc k)) \<le> newton_iter p V (Suc k)"
    using newton_iter_antitone_step[OF assms, of "Suc k" V] by (simp del: funpow.simps)
qed

text \<open>
  C20: without the cap, the Newton iterates converge to the solution of the
  single-diode equation for every voltage: the iteration of lines 28--38 approaches the
  true current density and stays arbitrarily close to it from some pass on.
\<close>

theorem newton_iter_converges:
  assumes "valid_params p"
  shows "(\<lambda>k. newton_iter p V k) \<longlonglongrightarrow> diode_solution p V"
proof -
  let ?s = "\<lambda>k. newton_iter p V (Suc k)"
  have low: "\<forall>k. diode_solution p V \<le> ?s k"
    using newton_iter_overshoot[OF assms] diode_solution_le_iff[OF assms]
    by (simp del: funpow.simps)
  obtain L where L: "?s \<longlonglongrightarrow> L"
    using decseq_convergent[OF newton_iter_decseq[OF assms] low] by blast
  have "(\<lambda>k. newton_step p V (?s k)) \<longlonglongrightarrow> newton_step p V L"
    using isCont_tendsto_compose[OF newton_step_isCont[OF assms] L] .
  moreover have "(\<lambda>k. newton_step p V (?s k)) \<longlonglongrightarrow> L"
    using LIMSEQ_Suc[OF L] by simp
  ultimately have "newton_step p V L = L"
    by (rule LIMSEQ_unique)
  then have "diode_f p V L = 0"
    using diode_df_ge_1[OF assms, of V L] by (simp add: newton_step_def)
  then have "L = diode_solution p V"
    using diode_solution_le_iff[OF assms, of V L] diode_solution_ge_iff[OF assms, of L V] by simp
  with L show ?thesis
    by (simp only: filterlim_sequentially_Suc[symmetric, where f = "\<lambda>k. newton_iter p V k"])
qed

theorem newton_iter_converges_witness:
  "valid_params ref_params \<and> (\<lambda>k. newton_iter ref_params 0.5 k) \<longlonglongrightarrow> diode_solution ref_params 0.5"
  using newton_iter_converges[OF valid_ref_params, of "0.5"] valid_ref_params by simp

end
