(* ===== verification/Measurements.thy ===== *)
theory Measurements
  imports Diode_Model
begin

text \<open>
  The measured cell data of src/solarcell.py (module constants \<^verbatim>\<open>Voc\<close>, \<^verbatim>\<open>FF\<close>,
  \<^verbatim>\<open>eta\<close>, \<^verbatim>\<open>V_MPP\<close>, \<^verbatim>\<open>J_MPP\<close>, lines 5--10; \<^verbatim>\<open>Jsc\<close> of line 6 is the field
  \<open>Jsc\<close> of \<open>Diode_Model.ref_params\<close>), and the numeric content of the performance
  report printed at lines 113--122 as a record, one field per printed quantity (the
  printed text is in \<open>Presentation\<close>).  The lemmas compare the measured constants with
  the diode model that the same script plots: the marked open-circuit voltage and
  maximum power point do not lie on the model's J-V curve, and the model's power
  maximum is far from the measured \<^verbatim>\<open>V_MPP\<close>.
\<close>

definition Voc :: voltage where
  "Voc = 1.008312"

definition FF :: real where
  "FF = 0.883105"

definition eta :: real where
  "eta = 0.271821"

definition V_MPP :: voltage where
  "V_MPP = 0.915723"

definition J_MPP :: current_density where
  "J_MPP = 29.68373326"

record performance_report =
  rep_Voc :: voltage
  rep_Jsc :: current_density
  rep_FF_percent :: real
  rep_eta_percent :: real
  rep_V_MPP :: voltage
  rep_V_MPP_of_Voc_percent :: real
  rep_J_MPP :: current_density
  rep_J_MPP_of_Jsc_percent :: real
  rep_MPP_power :: real
  rep_theoretical_max_power :: real

definition performance_analysis :: performance_report where
  "performance_analysis =
     \<lparr>rep_Voc = Voc, rep_Jsc = Jsc ref_params, rep_FF_percent = FF * 100,
      rep_eta_percent = eta * 100, rep_V_MPP = V_MPP,
      rep_V_MPP_of_Voc_percent = V_MPP / Voc * 100, rep_J_MPP = J_MPP,
      rep_J_MPP_of_Jsc_percent = J_MPP / Jsc ref_params * 100,
      rep_MPP_power = V_MPP * J_MPP,
      rep_theoretical_max_power = Voc * Jsc ref_params * FF\<rparr>"

lemma exp_arg_ref_Voc: "32 \<le> exp_arg ref_params Voc 0"
  by (simp add: exp_arg_def ref_params_def Voc_def)

lemma exp_arg_ref_MPP: "30 \<le> exp_arg ref_params V_MPP J_MPP"
  by (simp add: exp_arg_def ref_params_def V_MPP_def J_MPP_def)

lemma diode_f_ref_Voc_pos: "0 < diode_f ref_params Voc 0"
proof -
  have "59000000000000 \<le> exp (exp_arg ref_params Voc 0)"
    using exp_32_lower exp_arg_ref_Voc by (meson exp_mono_le order_trans)
  then show ?thesis
    by (simp add: diode_f_def ref_params_def Voc_def)
qed

lemma diode_f_ref_MPP_pos: "0 < diode_f ref_params V_MPP J_MPP"
proof -
  have "8000000000000 \<le> exp (exp_arg ref_params V_MPP J_MPP)"
    using exp_30_lower exp_arg_ref_MPP by (meson exp_mono_le order_trans)
  then show ?thesis
    by (simp add: diode_f_def ref_params_def V_MPP_def J_MPP_def)
qed

subsection \<open>The measured constants against the model\<close>

lemma ref_solution_le_24:
  assumes "0.905723 \<le> V"
  shows "diode_solution ref_params V \<le> 24"
proof -
  have "29.95 \<le> exp_arg ref_params V 24"
    using assms by (simp add: exp_arg_def ref_params_def)
  then have e: "7300000000000 \<le> exp (exp_arg ref_params V 24)"
    using exp_29_95_lower exp_mono_le order.trans by blast
  have "diode_f ref_params V 24 =
          24 - 3052638788 / 100000000 + (exp (exp_arg ref_params V 24) - 1) / 1000000000000
          + (V + 24 / 1000) / 10000"
    by (simp add: diode_f_def ref_params_def)
  also have "\<dots> \<ge> 0"
  proof -
    have "(7300000000000 - 1) / 1000000000000
            \<le> (exp (exp_arg ref_params V 24) - 1) / (1000000000000::real)"
      using e by (intro divide_right_mono) simp_all
    then show ?thesis using assms by simp
  qed
  finally show ?thesis
    using diode_solution_le_iff[OF valid_ref_params, of V 24] by simp
qed

lemma ref_solution_le_29_5:
  assumes "0.85 \<le> V"
  shows "diode_solution ref_params V \<le> 29.5"
proof -
  have "28 \<le> exp_arg ref_params V 29.5"
    using assms by (simp add: exp_arg_def ref_params_def)
  then have e: "1132900000000 \<le> exp (exp_arg ref_params V 29.5)"
    using exp_28_lower exp_mono_le order.trans by blast
  have "diode_f ref_params V 29.5 =
          29.5 - 3052638788 / 100000000 + (exp (exp_arg ref_params V 29.5) - 1) / 1000000000000
          + (V + 29.5 / 1000) / 10000"
    by (simp add: diode_f_def ref_params_def)
  also have "\<dots> \<ge> 0"
  proof -
    have "(1132900000000 - 1) / 1000000000000
            \<le> (exp (exp_arg ref_params V 29.5) - 1) / (1000000000000::real)"
      using e by (intro divide_right_mono) simp_all
    then show ?thesis using assms by simp
  qed
  finally show ?thesis
    using diode_solution_le_iff[OF valid_ref_params, of V "29.5"] by simp
qed

lemma ref_solution_at_083: "28.5 \<le> diode_solution ref_params 0.83"
proof -
  have "exp_arg ref_params 0.83 28.5 \<le> 28"
    by (simp add: exp_arg_def ref_params_def)
  then have e: "exp (exp_arg ref_params 0.83 28.5) \<le> 1620000000000"
    using exp_28_upper exp_mono_le order.trans by blast
  have "diode_f ref_params 0.83 28.5 =
          28.5 - 3052638788 / 100000000 + (exp (exp_arg ref_params 0.83 28.5) - 1) / 1000000000000
          + 0.8585 / 10000"
    by (simp add: diode_f_def ref_params_def)
  also have "\<dots> \<le> 0"
  proof -
    have "(exp (exp_arg ref_params 0.83 28.5) - 1) / 1000000000000
            \<le> (1620000000000::real) / 1000000000000"
      using e by (intro divide_right_mono) simp_all
    then show ?thesis by simp
  qed
  finally show ?thesis
    using diode_solution_ge_iff[OF valid_ref_params, of "28.5" "0.83"] by simp
qed

text \<open>
  C15: the open-circuit voltage \<^verbatim>\<open>Voc\<close> that the script marks on the J-V plot is not
  the open-circuit voltage of its own diode model: at \<open>V = Voc\<close> the residual at
  \<open>J = 0\<close> is positive, so the model's current there is negative.
\<close>

theorem Voc_not_model_open_circuit:
  "0 < diode_f ref_params Voc 0 \<and> diode_solution ref_params Voc < 0"
  using diode_f_ref_Voc_pos diode_solution_less_iff[OF valid_ref_params, of Voc 0] by simp

text \<open>
  C16: the maximum power point \<^verbatim>\<open>(V_MPP, J_MPP)\<close> marked on the plot lies above the
  model's J-V curve: the model's current at \<open>V_MPP\<close> is below \<open>J_MPP\<close>.
\<close>

theorem MPP_above_model_curve:
  "diode_solution ref_params V_MPP < J_MPP"
  using diode_f_ref_MPP_pos diode_solution_less_iff[OF valid_ref_params, of V_MPP J_MPP] by simp

text \<open>
  C27: the model's power maximum is not at the measured \<^verbatim>\<open>V_MPP\<close>.  Every voltage
  within 0.01 V of \<^verbatim>\<open>V_MPP = 0.915723\<close> gives less power \<open>V J(V)\<close> on the model's
  curve than \<open>V = 0.83\<close> does, so the model's maximum power point lies outside that
  neighbourhood (it is near 0.832 V).  This refutes the spec's testable property that
  the maximiser of \<open>V \<cdot> solve_current(V)\<close> lies within \<open>\<plusminus>0.01\<close> V of \<^verbatim>\<open>V_MPP\<close>.
\<close>

theorem model_power_max_not_at_V_MPP:
  "\<forall>V. V_MPP - 0.01 \<le> V \<and> V \<le> V_MPP + 0.01 \<longrightarrow>
       V * diode_solution ref_params V < 0.83 * diode_solution ref_params 0.83"
proof (intro allI impI)
  fix V
  assume V: "V_MPP - 0.01 \<le> V \<and> V \<le> V_MPP + 0.01"
  then have V': "0.905723 \<le> V" "V \<le> 0.925723"
    by (simp_all add: V_MPP_def)
  have "V * diode_solution ref_params V \<le> V * 24"
    using ref_solution_le_24[OF V'(1)] V'(1) by (intro mult_left_mono) simp_all
  also have "\<dots> < 0.83 * 28.5"
    using V'(2) by simp
  also have "\<dots> \<le> 0.83 * diode_solution ref_params 0.83"
    using ref_solution_at_083 by simp
  finally show "V * diode_solution ref_params V < 0.83 * diode_solution ref_params 0.83" .
qed

theorem model_power_max_not_at_V_MPP_witness:
  "V_MPP - 0.01 \<le> V_MPP \<and> V_MPP \<le> V_MPP + 0.01 \<and>
   V_MPP * diode_solution ref_params V_MPP < 0.83 * diode_solution ref_params 0.83"
  using model_power_max_not_at_V_MPP by simp

end
