(* ===== verification/Sweep.thy ===== *)
theory Sweep
  imports Measurements
begin

text \<open>
  The sweep driver of src/solarcell.py, lines 43--45:
  \<^verbatim>\<open>
  V_range = np.linspace(-0.1, Voc + 0.05, 500)
  J_range = np.array([solar_cell_current(V) for V in V_range])
  P_range = V_range * J_range
  \<close>
  \<open>linspace\<close> follows numpy's definition with \<^verbatim>\<open>endpoint=True\<close>: \<open>num\<close> points
  \<open>start + i * step\<close> with \<open>step = (stop - start) / (num - 1)\<close>, the last one
  overwritten by \<open>stop\<close> when \<open>num > 1\<close>.  \<open>sweep_currents\<close> is the list
  comprehension over any solver of type \<open>voltage \<Rightarrow> current_density option\<close>: it
  stops at the first voltage where the solver fails, as the exception would.  Its lemmas
  are stated for any solver; the root theory instantiates them with
  \<open>Diode_Model.solar_cell_current\<close>.
\<close>

definition linspace :: "real \<Rightarrow> real \<Rightarrow> nat \<Rightarrow> real list" where
  "linspace start stop num =
     (let step = (stop - start) / real (num - 1);
          ys = map (\<lambda>i. start + real i * step) [0..<num]
      in if 1 < num then ys[num - 1 := stop] else ys)"

primrec sweep_currents ::
  "(voltage \<Rightarrow> current_density option) \<Rightarrow> voltage list \<Rightarrow> current_density list option" where
  "sweep_currents solve [] = Some []"
| "sweep_currents solve (V # Vs) =
     (case solve V of
        None \<Rightarrow> None
      | Some J \<Rightarrow> map_option ((#) J) (sweep_currents solve Vs))"

definition power_density :: "voltage list \<Rightarrow> current_density list \<Rightarrow> real list" where
  "power_density Vs Js = map2 (*) Vs Js"

definition V_range :: "voltage list" where
  "V_range = linspace (-0.1) (Voc + 0.05) 500"

definition J_range :: "current_density list option" where
  "J_range = sweep_currents (solar_cell_current ref_params) V_range"

definition P_range :: "real list option" where
  "P_range = map_option (power_density V_range) J_range"

subsection \<open>The voltage grid\<close>

lemma length_linspace [simp]: "length (linspace a b N) = N"
  by (simp add: linspace_def Let_def)

lemma linspace_nth:
  assumes "i < N"
  shows "linspace a b N ! i = a + real i * ((b - a) / real (N - 1))"
proof (cases "1 < N \<and> i = N - 1")
  case True
  then have "real i * ((b - a) / real (N - 1)) = b - a"
    by (simp add: of_nat_diff)
  with True show ?thesis
    by (simp add: linspace_def Let_def)
next
  case False
  with assms show ?thesis
    by (auto simp: linspace_def Let_def nth_list_update)
qed

lemma linspace_nth_bounds:
  assumes "i < N" "a \<le> b"
  shows "a \<le> linspace a b N ! i \<and> linspace a b N ! i \<le> b"
proof -
  have "real i \<le> real (N - 1)"
    using assms(1) by simp
  then have "real i * ((b - a) / real (N - 1)) \<le> real (N - 1) * ((b - a) / real (N - 1))"
    using assms(2) by (intro mult_right_mono) simp_all
  also have "\<dots> \<le> b - a"
    using assms(2) by (cases "N - 1 = 0") simp_all
  finally have "real i * ((b - a) / real (N - 1)) \<le> b - a" .
  moreover have "0 \<le> real i * ((b - a) / real (N - 1))"
    using assms(2) by simp
  ultimately show ?thesis
    using assms(1) by (simp add: linspace_nth)
qed

lemma set_linspace_bounds:
  "a \<le> b \<Longrightarrow> x \<in> set (linspace a b N) \<Longrightarrow> a \<le> x \<and> x \<le> b"
  by (auto simp: in_set_conv_nth dest: linspace_nth_bounds)

subsection \<open>The sweep over any solver\<close>

lemma sweep_currents_Some:
  assumes "\<And>V. V \<in> set Vs \<Longrightarrow> solve V \<noteq> None"
  shows "\<exists>Js. sweep_currents solve Vs = Some Js \<and> length Js = length Vs \<and>
              (\<forall>i<length Vs. solve (Vs ! i) = Some (Js ! i))"
  using assms
proof (induction Vs)
  case Nil
  then show ?case by simp
next
  case (Cons V Vs)
  then obtain J Js where J: "solve V = Some J" and
    Js: "sweep_currents solve Vs = Some Js" "length Js = length Vs"
        "\<forall>i<length Vs. solve (Vs ! i) = Some (Js ! i)"
    by fastforce
  then show ?case
    by (auto simp: nth_Cons split: nat.splits)
qed


lemma length_power_density [simp]:
  "length (power_density Vs Js) = min (length Vs) (length Js)"
  by (simp add: power_density_def)

lemma power_density_nth:
  "i < length Vs \<Longrightarrow> i < length Js \<Longrightarrow> power_density Vs Js ! i = Vs ! i * Js ! i"
  by (simp add: power_density_def)

end
