(* ===== verification/Reference_Sweep.thy ===== *)
theory Reference_Sweep
  imports Sweep
begin

text \<open>
  The sweep of src/solarcell.py lines 43--45 at the script's own parameters: the grid
  \<open>V_range\<close>, its end points, and the reference arrays \<open>J_range\<close> and \<open>P_range\<close>.
  Every solve on the grid returns a current, which lies on or above the model's exact
  solution (the solver approaches the root from above).  The lemmas here are shared by
  the sweep claims of the root theory and by the figure theory.
\<close>

lemma length_V_range [simp]: "length V_range = 500"
  by (simp add: V_range_def)

lemma V_range_bounds:
  assumes "V \<in> set V_range"
  shows "-0.1 \<le> V \<and> V \<le> 1.058312"
proof -
  have "V \<in> set (linspace (-0.1) (Voc + 0.05) 500)"
    using assms by (simp add: V_range_def)
  then show ?thesis
    using set_linspace_bounds[of "-0.1" "Voc + 0.05" V 500] by (simp add: Voc_def)
qed

lemma V_range_first: "V_range ! 0 = -0.1"
  by (simp add: V_range_def linspace_nth)

lemma solar_cell_current_ref_above:
  "\<exists>J. solar_cell_current ref_params V = Some J \<and> diode_solution ref_params V \<le> J"
  using solar_cell_current_residual[OF valid_ref_params, of V]
        diode_solution_le_iff[OF valid_ref_params] by auto

lemma V_range_nth:
  "i < 500 \<Longrightarrow> V_range ! i = -0.1 + real i * (1.158312 / 499)"
  by (simp add: V_range_def linspace_nth Voc_def)

lemma V_range_last: "V_range ! 499 = 1.058312"
  by (simp add: V_range_nth)

lemma ref_sweep_currents:
  "\<exists>Js. J_range = Some Js \<and> length Js = 500 \<and>
     (\<forall>i<500. solar_cell_current ref_params (V_range ! i) = Some (Js ! i) \<and>
               diode_solution ref_params (V_range ! i) \<le> Js ! i)"
proof -
  have total: "\<And>V. V \<in> set V_range \<Longrightarrow> solar_cell_current ref_params V \<noteq> None"
    using solar_cell_current_ref_above by fastforce
  obtain Js where Js: "J_range = Some Js" "length Js = 500"
    "\<forall>i<500. solar_cell_current ref_params (V_range ! i) = Some (Js ! i)"
    using sweep_currents_Some[of V_range "solar_cell_current ref_params", OF total]
    by (auto simp: J_range_def)
  have "diode_solution ref_params (V_range ! i) \<le> Js ! i" if "i < 500" for i
    using Js(3) that solar_cell_current_ref_above[of "V_range ! i"] by auto
  with Js show ?thesis by blast
qed

lemma ref_newton_iter_le:
  assumes "-0.1 \<le> V"
  shows "newton_iter ref_params V k \<le> Jsc ref_params + 1 / 100000"
proof -
  have "-7 / 100 \<le> V + Jsc ref_params * Rs ref_params"
    using assms by (simp add: ref_params_def)
  then have "-7 / 1000000 \<le> (V + Jsc ref_params * Rs ref_params) / Rsh ref_params"
    by (simp add: ref_params_def divide_right_mono)
  moreover have "J0 ref_params = 1 / 1000000000000"
    by (simp add: ref_params_def)
  ultimately have "J0 ref_params - (V + Jsc ref_params * Rs ref_params) / Rsh ref_params \<le> 1 / 100000"
    by linarith
  then have "max 0 (J0 ref_params - (V + Jsc ref_params * Rs ref_params) / Rsh ref_params) \<le> 1 / 100000"
    by (intro max.boundedI) simp_all
  then show ?thesis
    using newton_iter_le_bound[OF valid_ref_params, of k V] by linarith
qed



end
