(* ===== verification/Formatting.thy ===== *)
theory Formatting
  imports Prelude
begin

text \<open>
  Python's fixed-point float formatting, the \<^verbatim>\<open>{x:.Nf}\<close> of every f-string in
  src/solarcell.py (legend labels, lines 58--65; title, line 82; text box, lines 95--103;
  report, lines 114--122).  \<open>fmt_fixed d x\<close> prints a minus sign when \<open>x < 0\<close> (also
  when the rounded magnitude is zero, as Python prints \<^verbatim>\<open>-0.000\<close>), then the magnitude
  rounded to \<open>d\<close> decimals with ties to even, as an integer part, a point and exactly
  \<open>d\<close> digits (no point when \<open>d = 0\<close>).  The value is an exact real, so rounding acts on
  the exact decimal rather than on its binary float approximation; the two differ only for
  an exact tie, which none of the program's values is.  \<open>fmt_eval\<close> collects the
  equations under which \<open>simp\<close> evaluates a conversion of a literal.
\<close>

definition digit_char :: "nat \<Rightarrow> char" where
  "digit_char d = ''0123456789'' ! d"

fun digits_of :: "nat \<Rightarrow> string" where
  "digits_of m = (if m < 10 then [digit_char m] else digits_of (m div 10) @ [digit_char (m mod 10)])"

declare digits_of.simps [simp del]

definition pad_zeros :: "nat \<Rightarrow> string \<Rightarrow> string" where
  "pad_zeros w s = replicate (w - length s) (CHR ''0'') @ s"

definition round_half_even :: "real \<Rightarrow> int" where
  "round_half_even y =
     (let f = \<lfloor>y\<rfloor>; r = y - of_int f
      in if r < 1 / 2 then f else if 1 / 2 < r then f + 1 else if even f then f else f + 1)"

definition fmt_scaled :: "nat \<Rightarrow> nat \<Rightarrow> string" where
  "fmt_scaled d m =
     (if d = 0 then digits_of m
      else digits_of (m div 10 ^ d) @ ''.'' @ pad_zeros d (digits_of (m mod 10 ^ d)))"

definition fmt_fixed :: "nat \<Rightarrow> real \<Rightarrow> string" where
  "fmt_fixed d x =
     (if x < 0 then ''-'' else []) @ fmt_scaled d (nat (round_half_even (\<bar>x\<bar> * 10 ^ d)))"

lemma replicate_numeral: "replicate (numeral k) x = x # replicate (pred_numeral k) x"
  by (simp add: numeral_eq_Suc)

lemmas fmt_eval = fmt_fixed_def fmt_scaled_def round_half_even_def pad_zeros_def
  digit_char_def digits_of.simps Let_def replicate_numeral

end
