(* ===== verification/Presentation.thy ===== *)
theory Presentation
  imports Formatting Measurements
begin

text \<open>
  The text the script shows: the labels of the key-point markers and of the
  maximum-power rectangle (lines 57--65), the figure title (lines 80--83), the parameter
  text box (lines 94--103) and the performance report printed to standard output (lines
  112--128).  Every f-string field \<^verbatim>\<open>{e:.Nf}\<close> is \<open>Formatting.fmt_fixed N e\<close>; the
  numbers come from the record \<open>Measurements.performance_analysis\<close> and the measured
  constants.  Strings are byte lists; the non-ASCII characters of the source are their
  UTF-8 encodings (standard output and matplotlib text are UTF-8), written as byte
  constants: superscript two, Greek eta, micro sign and check mark.  The plotting calls
  themselves (where the text is drawn) are not modelled.
\<close>

definition sup_two :: string where
  "sup_two = [CHR 0xC2, CHR 0xB2]"

definition greek_eta :: string where
  "greek_eta = [CHR 0xCE, CHR 0xB7]"

definition micro_sign :: string where
  "micro_sign = [CHR 0xC2, CHR 0xB5]"

definition check_mark :: string where
  "check_mark = [CHR 0xE2, CHR 0x9C, CHR 0x93]"

definition newline :: string where
  "newline = [CHR 0x0A]"

record marker =
  mk_x :: real
  mk_y :: real
  mk_label :: string

definition key_point_markers :: "marker list" where
  "key_point_markers =
     [\<lparr>mk_x = Voc, mk_y = 0, mk_label = ''Voc = '' @ fmt_fixed 3 Voc @ '' V''\<rparr>,
      \<lparr>mk_x = 0, mk_y = Jsc ref_params,
       mk_label = ''Jsc = '' @ fmt_fixed 2 (Jsc ref_params) @ '' mA/cm'' @ sup_two\<rparr>,
      \<lparr>mk_x = V_MPP, mk_y = J_MPP,
       mk_label = ''MPP: ('' @ fmt_fixed 3 V_MPP @ '' V, '' @ fmt_fixed 2 J_MPP @ '' mA/cm'' @ sup_two @ '')''\<rparr>]"

definition max_power_label :: string where
  "max_power_label = ''Max Power: '' @ fmt_fixed 2 (V_MPP * J_MPP) @ '' mW/cm'' @ sup_two"

definition figure_title :: string where
  "figure_title =
     ''Current-Voltage (J-V) Characteristics of GaAs p-i-n Solar Cell'' @ newline @
     ''Efficiency ('' @ greek_eta @ '') = '' @ fmt_fixed 2 (eta * 100) @ ''% | Fill Factor (FF) = '' @
     fmt_fixed 2 (FF * 100) @ ''%''"

definition text_box_lines :: "string list" where
  "text_box_lines =
     [''Voc = '' @ fmt_fixed 3 Voc @ '' V'',
      ''Jsc = '' @ fmt_fixed 2 (Jsc ref_params) @ '' mA/cm'' @ sup_two,
      ''FF = '' @ fmt_fixed 2 (FF * 100) @ ''%'',
      greek_eta @ '' = '' @ fmt_fixed 2 (eta * 100) @ ''%'',
      ''V_MPP = '' @ fmt_fixed 3 V_MPP @ '' V'',
      ''J_MPP = '' @ fmt_fixed 2 J_MPP @ '' mA/cm'' @ sup_two,
      ''GaAs p-i-n Solar Cell'']"

definition text_box :: string where
  "text_box = concat (map (\<lambda>(i, s). (if i = 0 then [] else newline) @ s) (enumerate 0 text_box_lines))"

definition report_prints :: "performance_report \<Rightarrow> string list" where
  "report_prints r =
     [''=== SOLAR CELL PERFORMANCE ANALYSIS ==='',
      ''1. Open-Circuit Voltage (Voc): '' @ fmt_fixed 3 (rep_Voc r) @ '' V'',
      ''2. Short-Circuit Current Density (Jsc): '' @ fmt_fixed 2 (rep_Jsc r) @ '' mA/cm'' @ sup_two,
      ''3. Fill Factor (FF): '' @ fmt_fixed 2 (rep_FF_percent r) @ ''%'',
      ''4. Efficiency ('' @ greek_eta @ ''): '' @ fmt_fixed 2 (rep_eta_percent r) @ ''%'',
      ''5. Maximum Power Point:'',
      ''   - Voltage (V_MPP): '' @ fmt_fixed 3 (rep_V_MPP r) @ '' V ('' @
        fmt_fixed 1 (rep_V_MPP_of_Voc_percent r) @ ''% of Voc)'',
      ''   - Current (J_MPP): '' @ fmt_fixed 2 (rep_J_MPP r) @ '' mA/cm'' @ sup_two @ '' ('' @
        fmt_fixed 1 (rep_J_MPP_of_Jsc_percent r) @ ''% of Jsc)'',
      ''   - Power Density: '' @ fmt_fixed 3 (rep_MPP_power r) @ '' mW/cm'' @ sup_two,
      ''6. Theoretical Maximum Power: '' @ fmt_fixed 3 (rep_theoretical_max_power r) @ '' mW/cm'' @ sup_two,
      ''7. GaAs p-i-n Solar Cell with ~2 '' @ micro_sign @ ''m active layer'',
      newline @ ''=== PERFORMANCE EVALUATION ==='',
      check_mark @ '' Excellent efficiency (>27%)'',
      check_mark @ '' Outstanding fill factor (>88%)'',
      check_mark @ '' Very high current density (>30 mA/cm'' @ sup_two @ '')'',
      check_mark @ '' Competitive with state-of-the-art GaAs cells'']"

definition report_stdout :: string where
  "report_stdout = concat (map (\<lambda>s. s @ newline) (report_prints performance_analysis))"

lemmas report_eval = report_prints_def performance_analysis_def Voc_def FF_def eta_def
  V_MPP_def J_MPP_def ref_params_def fmt_eval

end
