(* ===== verification/Figure.thy ===== *)
theory Figure
  imports Reference_Sweep
begin

text \<open>
  The axis limits of the figure, src/solarcell.py lines 78, 86 and 87:
  \<^verbatim>\<open>
  ax2.set_ylim([0, max(P_range)*1.1])
  ax1.set_xlim([-0.1, Voc + 0.05])
  ax1.set_ylim([-2, Jsc * 1.1])
  \<close>
  \<open>np_max\<close> is Python's \<^verbatim>\<open>max\<close> over the power array (\<open>None\<close> for an empty array,
  where Python raises \<^verbatim>\<open>ValueError\<close>).  \<open>figure_limits\<close> is \<open>None\<close> when the sweep or
  the maximum fails.  The lemmas relate the limits to the sweep: the current axis spans
  exactly the swept voltages, the power axis is a proper interval holding every power
  sample, and the model's curve runs below the current axis at the end of the sweep.
\<close>

definition np_max :: "real list \<Rightarrow> real option" where
  "np_max xs = (case xs of [] \<Rightarrow> None | x # ys \<Rightarrow> Some (fold max ys x))"

record axis_limits =
  ax1_xlim :: "real \<times> real"
  ax1_ylim :: "real \<times> real"
  ax2_ylim :: "real \<times> real"

definition figure_limits :: "axis_limits option" where
  "figure_limits =
     (case P_range of
        None \<Rightarrow> None
      | Some Ps \<Rightarrow>
          (case np_max Ps of
             None \<Rightarrow> None
           | Some m \<Rightarrow>
               Some \<lparr>ax1_xlim = (-0.1, Voc + 0.05), ax1_ylim = (-2, Jsc ref_params * 1.1),
                     ax2_ylim = (0, m * 1.1)\<rparr>))"

lemma fold_max_ge: "(x::real) \<le> fold max ys x \<and> (\<forall>y \<in> set ys. y \<le> fold max ys x)"
proof (induction ys arbitrary: x)
  case Nil
  then show ?case by simp
next
  case (Cons a ys)
  from Cons.IH[of "max a x"]
  have "max a x \<le> fold max ys (max a x)" "\<forall>y \<in> set ys. y \<le> fold max ys (max a x)"
    by simp_all
  then show ?case by auto
qed

lemma np_max_Some:
  assumes "xs \<noteq> []"
  shows "\<exists>m. np_max xs = Some m \<and> (\<forall>x \<in> set xs. x \<le> m)"
  using assms fold_max_ge by (cases xs) (auto simp: np_max_def)

lemma diode_solution_ref_pos:
  assumes "-0.1 \<le> V" "V \<le> 0.155"
  shows "0 < diode_solution ref_params V"
proof -
  have "exp_arg ref_params V 0 \<le> 5"
    using assms by (simp add: exp_arg_def ref_params_def)
  then have e: "exp (exp_arg ref_params V 0) \<le> 243"
    using exp_5_upper exp_mono_le order.trans by blast
  have "diode_f ref_params V 0 =
          - 3052638788 / 100000000 + (exp (exp_arg ref_params V 0) - 1) / 1000000000000 + V / 10000"
    by (simp add: diode_f_def ref_params_def)
  also have "\<dots> < 0"
  proof -
    have "(exp (exp_arg ref_params V 0) - 1) / 1000000000000 \<le> (242::real) / 1000000000000"
      using e by (intro divide_right_mono) simp_all
    moreover have "V / 10000 \<le> 1"
      using assms by simp
    ultimately show ?thesis by linarith
  qed
  finally show ?thesis
    using diode_solution_le_iff[OF valid_ref_params, of V 0] by linarith
qed

lemma ref_figure_limits:
  obtains Js m where "J_range = Some Js" "length Js = 500"
    "\<And>i. i < 500 \<Longrightarrow> diode_solution ref_params (V_range ! i) \<le> Js ! i"
    "P_range = Some (power_density V_range Js)"
    "np_max (power_density V_range Js) = Some m"
    "\<forall>P \<in> set (power_density V_range Js). P \<le> m"
    "figure_limits = Some \<lparr>ax1_xlim = (-0.1, Voc + 0.05), ax1_ylim = (-2, Jsc ref_params * 1.1),
                          ax2_ylim = (0, m * 1.1)\<rparr>"
proof -
  obtain Js where Js: "J_range = Some Js" "length Js = 500"
    "\<And>i. i < 500 \<Longrightarrow> diode_solution ref_params (V_range ! i) \<le> Js ! i"
    using ref_sweep_currents by blast
  have P: "P_range = Some (power_density V_range Js)"
    unfolding P_range_def Js(1) by simp
  have "length (power_density V_range Js) = 500"
    using Js(2) by simp
  then have "power_density V_range Js \<noteq> []"
    by (metis list.size(3) zero_neq_numeral)
  then obtain m where m: "np_max (power_density V_range Js) = Some m"
    "\<forall>P \<in> set (power_density V_range Js). P \<le> m"
    using np_max_Some by blast
  have "figure_limits = Some \<lparr>ax1_xlim = (-0.1, Voc + 0.05), ax1_ylim = (-2, Jsc ref_params * 1.1),
                               ax2_ylim = (0, m * 1.1)\<rparr>"
    by (simp add: figure_limits_def P m(1))
  with Js P m show ?thesis
    by (rule that)
qed

lemma ref_power_sign:
  assumes "i < 500" "length Js = 500"
    "diode_solution ref_params (V_range ! i) \<le> Js ! i" "V_range ! i \<le> 0.155"
  shows "0 < Js ! i \<and> power_density V_range Js ! i = V_range ! i * Js ! i"
  using diode_solution_ref_pos[of "V_range ! i"] V_range_bounds[of "V_range ! i"] assms
  by (simp add: power_density_nth)

lemma V_range_100: "V_range ! 100 = -0.1 + 100 * (1.158312 / 499)"
  by (simp add: V_range_nth)

lemma diode_solution_ref_end: "diode_solution ref_params 1.058312 < -2"
proof -
  have "32 \<le> exp_arg ref_params 1.058312 (-2)"
    by (simp add: exp_arg_def ref_params_def)
  then have e: "59000000000000 \<le> exp (exp_arg ref_params 1.058312 (-2))"
    using exp_32_lower exp_mono_le order.trans by blast
  have "diode_f ref_params 1.058312 (-2) =
          - 2 - 3052638788 / 100000000 + (exp (exp_arg ref_params 1.058312 (-2)) - 1) / 1000000000000
          + 1.056312 / 10000"
    by (simp add: diode_f_def ref_params_def)
  also have "\<dots> > 0"
  proof -
    have "(59000000000000 - 1) / 1000000000000
            \<le> (exp (exp_arg ref_params 1.058312 (-2)) - 1) / (1000000000000::real)"
      using e by (intro divide_right_mono) simp_all
    then show ?thesis by simp
  qed
  finally show ?thesis
    using diode_solution_less_iff[OF valid_ref_params, of "1.058312" "-2"] by linarith
qed

text \<open>
  C21: the figure's frame, lines 78, 86 and 87.  At the script's parameters the figure
  gets its limits (the sweep and \<^verbatim>\<open>max(P_range)\<close> succeed); the voltage axis spans
  exactly the first and last swept voltages; the power axis starts at 0 and its top
  is positive and lies strictly above every power sample, so the 10\<open>%\<close> headroom
  keeps the whole positive part of the power curve inside the axis.
\<close>

theorem figure_frame:
  "\<exists>lim. figure_limits = Some lim \<and> ax1_xlim lim = (V_range ! 0, V_range ! 499) \<and>
     fst (ax2_ylim lim) = 0 \<and> 0 < snd (ax2_ylim lim) \<and>
     (\<exists>Ps. P_range = Some Ps \<and> (\<forall>P \<in> set Ps. P < snd (ax2_ylim lim)))"
proof -
  obtain Js m where lim: "J_range = Some Js" "length Js = 500"
    "\<And>i. i < 500 \<Longrightarrow> diode_solution ref_params (V_range ! i) \<le> Js ! i"
    "P_range = Some (power_density V_range Js)"
    "np_max (power_density V_range Js) = Some m"
    "\<forall>P \<in> set (power_density V_range Js). P \<le> m"
    "figure_limits = Some \<lparr>ax1_xlim = (-0.1, Voc + 0.05), ax1_ylim = (-2, Jsc ref_params * 1.1),
                          ax2_ylim = (0, m * 1.1)\<rparr>"
    using ref_figure_limits by blast
  have "0 < Js ! 100 \<and> power_density V_range Js ! 100 = V_range ! 100 * Js ! 100"
    using lim(2) lim(3)[of 100] by (intro ref_power_sign) (simp_all add: V_range_100)
  moreover have "0 < V_range ! 100"
    by (simp add: V_range_100)
  moreover have "power_density V_range Js ! 100 \<in> set (power_density V_range Js)"
    using lim(2) by (intro nth_mem) simp
  ultimately have "0 < m"
    using lim(6) by (metis mult_pos_pos order_less_le_trans)
  then have "\<forall>P \<in> set (power_density V_range Js). P < m * 1.1"
    using lim(6) by fastforce
  with \<open>0 < m\<close> show ?thesis
    by (simp add: lim(4,7) V_range_first V_range_last Voc_def)
qed

theorem figure_frame_witness:
  "\<exists>lim. figure_limits = Some lim \<and> ax1_xlim lim = (-0.1, 1.058312) \<and> 0 < snd (ax2_ylim lim)"
proof -
  obtain lim where lim: "figure_limits = Some lim" "ax1_xlim lim = (V_range ! 0, V_range ! 499)"
    "0 < snd (ax2_ylim lim)"
    using figure_frame by blast
  then show ?thesis
    by (simp add: lim(1) V_range_first V_range_last)
qed

text \<open>
  C22: the frame clips the curves at both ends of the sweep.  At the last swept voltage
  the model's exact current is below the current axis' lower limit of \<open>-2\<close>, so the
  J-V curve leaves the plot at the bottom; at the first swept voltage \<open>-0.1\<close> the
  power sample is negative, below the power axis' lower limit 0.
\<close>

theorem figure_clips_curves:
  "\<exists>lim Ps. figure_limits = Some lim \<and> P_range = Some Ps \<and>
     diode_solution ref_params (V_range ! 499) < fst (ax1_ylim lim) \<and>
     Ps ! 0 < fst (ax2_ylim lim)"
proof -
  obtain Js m where lim: "J_range = Some Js" "length Js = 500"
    "\<And>i. i < 500 \<Longrightarrow> diode_solution ref_params (V_range ! i) \<le> Js ! i"
    "P_range = Some (power_density V_range Js)"
    "np_max (power_density V_range Js) = Some m"
    "\<forall>P \<in> set (power_density V_range Js). P \<le> m"
    "figure_limits = Some \<lparr>ax1_xlim = (-0.1, Voc + 0.05), ax1_ylim = (-2, Jsc ref_params * 1.1),
                          ax2_ylim = (0, m * 1.1)\<rparr>"
    using ref_figure_limits by blast
  have "0 < Js ! 0 \<and> power_density V_range Js ! 0 = V_range ! 0 * Js ! 0"
    using lim(2) lim(3)[of 0] by (intro ref_power_sign) (simp_all add: V_range_first)
  then have "power_density V_range Js ! 0 < 0"
    by (simp add: V_range_first)
  moreover have "diode_solution ref_params (V_range ! 499) < -2"
    using diode_solution_ref_end by (simp only: V_range_last)
  ultimately show ?thesis
    by (intro exI[of _ "the figure_limits"] exI[of _ "power_density V_range Js"])
       (simp add: lim(4,7))
qed

end
