(* ===== verification/Plot_Calls.thy ===== *)
theory Plot_Calls
  imports Presentation Figure
begin

text \<open>
  The drawing of src/solarcell.py lines 47--110 as explicit state passing over a figure
  record.  Each matplotlib call the script makes is one operation on the figure: it adds
  an artist to an axes (in insertion order, as \<^verbatim>\<open>Axes._children\<close>), sets a label, a
  title or a limit, creates the twin axes, or attaches the legend.  Two of the calls can
  raise: \<^verbatim>\<open>Axes.plot\<close> with x and y arrays of different lengths (\<^verbatim>\<open>ValueError: x and
  y must have same first dimension\<close>) and \<^verbatim>\<open>max\<close> of an empty array; they return an
  \<open>plot_error + figure\<close> value.  \<open>draw_figure\<close> is the script's sequence of calls on
  given arrays; \<open>script_figure\<close> runs it on the sweep's arrays.

  Styling arguments (colours, line styles, widths, font sizes, alpha, \<^verbatim>\<open>tick_params\<close>,
  the text box's \<^verbatim>\<open>bbox\<close>) and the layout and display calls \<^verbatim>\<open>tight_layout\<close> and
  \<^verbatim>\<open>show\<close> change no state the model keeps.  An artist without a label is one whose
  matplotlib label starts with an underscore (the default), which the legend skips.
  \<^verbatim>\<open>twinx\<close> shares the x axis, so the twin axes have no x limits of their own: those
  set on \<^verbatim>\<open>ax1\<close> at line 86 apply to both.
\<close>

datatype plot_error = ShapeMismatch | EmptySequence | SweepFailed

datatype artist =
    Line2D "real list" "real list" "string option"
  | FillBetween "real list" real real "string option"
  | HLine real
  | VLine real
  | TextArt real real string

record axes =
  ax_children :: "artist list"
  ax_xlabel :: string
  ax_ylabel :: string
  ax_title :: string
  ax_xlim :: "(real \<times> real) option"
  ax_ylim :: "(real \<times> real) option"
  ax_grid :: bool
  ax_legend :: "string list option"

record figure =
  fig_size :: "real \<times> real"
  fig_ax1 :: axes
  fig_ax2 :: "axes option"

datatype ax_id = Ax1 | Ax2

definition empty_axes :: axes where
  "empty_axes = \<lparr>ax_children = [], ax_xlabel = [], ax_ylabel = [], ax_title = [], ax_xlim = None,
                 ax_ylim = None, ax_grid = False, ax_legend = None\<rparr>"

definition err_bind :: "'e + 'a \<Rightarrow> ('a \<Rightarrow> 'e + 'b) \<Rightarrow> 'e + 'b" where
  "err_bind m f = (case m of Inl e \<Rightarrow> Inl e | Inr a \<Rightarrow> f a)"

fun err_fold :: "('x \<Rightarrow> 'a \<Rightarrow> 'e + 'a) \<Rightarrow> 'x list \<Rightarrow> 'a \<Rightarrow> 'e + 'a" where
  "err_fold g [] a = Inr a"
| "err_fold g (x # xs) a = err_bind (g x a) (err_fold g xs)"

definition subplots :: "real \<times> real \<Rightarrow> figure" where
  "subplots sz = \<lparr>fig_size = sz, fig_ax1 = empty_axes, fig_ax2 = None\<rparr>"

definition upd_axes :: "ax_id \<Rightarrow> (axes \<Rightarrow> axes) \<Rightarrow> figure \<Rightarrow> figure" where
  "upd_axes a f fig =
     (case a of Ax1 \<Rightarrow> fig\<lparr>fig_ax1 := f (fig_ax1 fig)\<rparr>
              | Ax2 \<Rightarrow> fig\<lparr>fig_ax2 := map_option f (fig_ax2 fig)\<rparr>)"

definition add_artist :: "ax_id \<Rightarrow> artist \<Rightarrow> figure \<Rightarrow> figure" where
  "add_artist a x = upd_axes a (\<lambda>ax. ax\<lparr>ax_children := ax_children ax @ [x]\<rparr>)"

definition mpl_plot ::
  "ax_id \<Rightarrow> real list \<Rightarrow> real list \<Rightarrow> string option \<Rightarrow> figure \<Rightarrow> plot_error + figure" where
  "mpl_plot a xs ys lbl fig =
     (if length xs \<noteq> length ys then Inl ShapeMismatch
      else Inr (add_artist a (Line2D xs ys lbl) fig))"

definition mpl_fill_between ::
  "ax_id \<Rightarrow> real list \<Rightarrow> real \<Rightarrow> real \<Rightarrow> string option \<Rightarrow> figure \<Rightarrow> figure" where
  "mpl_fill_between a xs y1 y2 lbl = add_artist a (FillBetween xs y1 y2 lbl)"

definition set_xlabel :: "ax_id \<Rightarrow> string \<Rightarrow> figure \<Rightarrow> figure" where
  "set_xlabel a s = upd_axes a (\<lambda>ax. ax\<lparr>ax_xlabel := s\<rparr>)"

definition set_ylabel :: "ax_id \<Rightarrow> string \<Rightarrow> figure \<Rightarrow> figure" where
  "set_ylabel a s = upd_axes a (\<lambda>ax. ax\<lparr>ax_ylabel := s\<rparr>)"

definition set_title :: "ax_id \<Rightarrow> string \<Rightarrow> figure \<Rightarrow> figure" where
  "set_title a s = upd_axes a (\<lambda>ax. ax\<lparr>ax_title := s\<rparr>)"

definition set_xlim :: "ax_id \<Rightarrow> real \<times> real \<Rightarrow> figure \<Rightarrow> figure" where
  "set_xlim a l = upd_axes a (\<lambda>ax. ax\<lparr>ax_xlim := Some l\<rparr>)"

definition set_ylim :: "ax_id \<Rightarrow> real \<times> real \<Rightarrow> figure \<Rightarrow> figure" where
  "set_ylim a l = upd_axes a (\<lambda>ax. ax\<lparr>ax_ylim := Some l\<rparr>)"

definition mpl_grid :: "ax_id \<Rightarrow> figure \<Rightarrow> figure" where
  "mpl_grid a = upd_axes a (\<lambda>ax. ax\<lparr>ax_grid := True\<rparr>)"

definition twinx :: "figure \<Rightarrow> figure" where
  "twinx fig = fig\<lparr>fig_ax2 := Some empty_axes\<rparr>"

definition mpl_axhline :: "ax_id \<Rightarrow> real \<Rightarrow> figure \<Rightarrow> figure" where
  "mpl_axhline a y = add_artist a (HLine y)"

definition mpl_axvline :: "ax_id \<Rightarrow> real \<Rightarrow> figure \<Rightarrow> figure" where
  "mpl_axvline a x = add_artist a (VLine x)"

definition mpl_text :: "ax_id \<Rightarrow> real \<Rightarrow> real \<Rightarrow> string \<Rightarrow> figure \<Rightarrow> figure" where
  "mpl_text a x y s = add_artist a (TextArt x y s)"

definition artist_label :: "artist \<Rightarrow> string option" where
  "artist_label x = (case x of Line2D _ _ l \<Rightarrow> l | FillBetween _ _ _ l \<Rightarrow> l | _ \<Rightarrow> None)"

definition legend_labels :: "axes \<Rightarrow> string list" where
  "legend_labels ax = List.map_filter artist_label (ax_children ax)"

definition mpl_legend :: "ax_id \<Rightarrow> string list \<Rightarrow> figure \<Rightarrow> figure" where
  "mpl_legend a ls = upd_axes a (\<lambda>ax. ax\<lparr>ax_legend := Some ls\<rparr>)"

definition draw_figure :: "real list \<Rightarrow> real list \<Rightarrow> real list \<Rightarrow> plot_error + figure" where
  "draw_figure Vs Js Ps =
     err_bind (mpl_plot Ax1 Vs Js (Some ''J-V Curve'') (subplots (10, 7))) (\<lambda>fig.
     let fig = set_xlabel Ax1 ''Voltage (V)'' fig;
         fig = set_ylabel Ax1 (''Current Density (mA/cm'' @ sup_two @ '')'') fig;
         fig = mpl_grid Ax1 fig
     in err_bind (err_fold (\<lambda>mk. mpl_plot Ax1 [mk_x mk] [mk_y mk] (Some (mk_label mk)))
                   key_point_markers fig) (\<lambda>fig.
     let fig = mpl_fill_between Ax1 [0, V_MPP] 0 J_MPP (Some max_power_label) fig;
         fig = mpl_axhline Ax1 0 fig;
         fig = mpl_axvline Ax1 0 fig;
         fig = mpl_axvline Ax1 Voc fig;
         fig = mpl_axhline Ax1 (Jsc ref_params) fig;
         fig = twinx fig
     in err_bind (mpl_plot Ax2 Vs Ps (Some ''Power'') fig) (\<lambda>fig.
     let fig = set_ylabel Ax2 (''Power Density (mW/cm'' @ sup_two @ '')'') fig
     in case np_max Ps of
          None \<Rightarrow> Inl EmptySequence
        | Some m \<Rightarrow>
            let fig = set_ylim Ax2 (0, m * 1.1) fig;
                fig = set_title Ax1 figure_title fig;
                fig = set_xlim Ax1 (-0.1, Voc + 0.05) fig;
                fig = set_ylim Ax1 (-2, Jsc ref_params * 1.1) fig;
                labels1 = legend_labels (fig_ax1 fig);
                labels2 = (case fig_ax2 fig of None \<Rightarrow> [] | Some ax2 \<Rightarrow> legend_labels ax2);
                fig = mpl_legend Ax1 (labels1 @ labels2) fig;
                fig = mpl_text Ax1 0.02 0.98 text_box fig
            in Inr fig)))"

definition script_figure :: "plot_error + figure" where
  "script_figure =
     (case (J_range, P_range) of
        (Some Js, Some Ps) \<Rightarrow> draw_figure V_range Js Ps
      | _ \<Rightarrow> Inl SweepFailed)"

subsection \<open>The error monad and the calls\<close>

lemma err_bind_simps [simp]:
  "err_bind (Inl e) f = Inl e"
  "err_bind (Inr a) f = f a"
  by (simp_all add: err_bind_def)

lemma err_fold_markers:
  "err_fold (\<lambda>mk. mpl_plot a [mk_x mk] [mk_y mk] (Some (mk_label mk))) ms fig =
     Inr (fold (\<lambda>mk. add_artist a (Line2D [mk_x mk] [mk_y mk] (Some (mk_label mk)))) ms fig)"
  by (induction ms arbitrary: fig) (simp_all add: mpl_plot_def)

lemma fold_add_artist_Ax1:
  "fold (\<lambda>x. add_artist Ax1 (g x)) xs fig =
     fig\<lparr>fig_ax1 := (fig_ax1 fig)\<lparr>ax_children := ax_children (fig_ax1 fig) @ map g xs\<rparr>\<rparr>"
  by (induction xs arbitrary: fig) (simp_all add: add_artist_def upd_axes_def)

lemma legend_labels_markers:
  "List.map_filter artist_label (map (\<lambda>mk. Line2D [mk_x mk] [mk_y mk] (Some (mk_label mk))) ms) =
     map mk_label ms"
  by (induction ms) (simp_all add: List.map_filter_def artist_label_def)

lemma add_artist_apply:
  "add_artist a x fig = upd_axes a (\<lambda>ax. ax\<lparr>ax_children := ax_children ax @ [x]\<rparr>) fig"
  by (simp add: add_artist_def)

lemmas figure_calls = mpl_plot_def mpl_fill_between_def set_xlabel_def set_ylabel_def
  set_title_def set_xlim_def set_ylim_def mpl_grid_def twinx_def mpl_axhline_def mpl_axvline_def
  mpl_text_def mpl_legend_def add_artist_apply upd_axes_def subplots_def

subsection \<open>What the calls build\<close>

lemma draw_figure_Inr:
  assumes "length Js = length Vs" "length Ps = length Vs" "np_max Ps = Some m"
  shows "draw_figure Vs Js Ps = Inr
    \<lparr>fig_size = (10, 7),
     fig_ax1 = \<lparr>ax_children =
                  Line2D Vs Js (Some ''J-V Curve'') #
                  map (\<lambda>mk. Line2D [mk_x mk] [mk_y mk] (Some (mk_label mk))) key_point_markers @
                  [FillBetween [0, V_MPP] 0 J_MPP (Some max_power_label), HLine 0, VLine 0, VLine Voc,
                   HLine (Jsc ref_params), TextArt 0.02 0.98 text_box],
                ax_xlabel = ''Voltage (V)'', ax_ylabel = ''Current Density (mA/cm'' @ sup_two @ '')'',
                ax_title = figure_title, ax_xlim = Some (-0.1, Voc + 0.05),
                ax_ylim = Some (-2, Jsc ref_params * 1.1), ax_grid = True,
                ax_legend = Some (''J-V Curve'' # map mk_label key_point_markers @ [max_power_label, ''Power''])\<rparr>,
     fig_ax2 = Some \<lparr>ax_children = [Line2D Vs Ps (Some ''Power'')], ax_xlabel = [],
                ax_ylabel = ''Power Density (mW/cm'' @ sup_two @ '')'', ax_title = [], ax_xlim = None,
                ax_ylim = Some (0, m * 1.1), ax_grid = False, ax_legend = None\<rparr>\<rparr>"
  using assms
  by (simp add: draw_figure_def err_fold_markers fold_add_artist_Ax1 figure_calls Let_def
      empty_axes_def legend_labels_def legend_labels_markers List.map_filter_def artist_label_def)

lemma ref_script_figure:
  obtains Js m where "J_range = Some Js" "P_range = Some (power_density V_range Js)"
    "length Js = length V_range" "length (power_density V_range Js) = length V_range"
    "np_max (power_density V_range Js) = Some m"
    "figure_limits = Some \<lparr>ax1_xlim = (-0.1, Voc + 0.05), ax1_ylim = (-2, Jsc ref_params * 1.1),
                          ax2_ylim = (0, m * 1.1)\<rparr>"
    "script_figure = draw_figure V_range Js (power_density V_range Js)"
proof -
  obtain Js m where lim: "J_range = Some Js" "length Js = 500"
    "\<And>i. i < 500 \<Longrightarrow> diode_solution ref_params (V_range ! i) \<le> Js ! i"
    "P_range = Some (power_density V_range Js)"
    "np_max (power_density V_range Js) = Some m"
    "\<forall>P \<in> set (power_density V_range Js). P \<le> m"
    "figure_limits = Some \<lparr>ax1_xlim = (-0.1, Voc + 0.05), ax1_ylim = (-2, Jsc ref_params * 1.1),
                          ax2_ylim = (0, m * 1.1)\<rparr>"
    using ref_figure_limits by blast
  moreover have "script_figure = draw_figure V_range Js (power_density V_range Js)"
    by (simp add: script_figure_def lim(1,4))
  ultimately show ?thesis
    using that by simp
qed

subsection \<open>Properties of the drawing\<close>

text \<open>
  C23: the script draws its figure, and the legend it attaches to the current axes
  (lines 90--92: the labelled artists of \<^verbatim>\<open>ax1\<close> in drawing order, then those of
  \<^verbatim>\<open>ax2\<close>) reads, in this order: the J-V curve, the three key points, the
  maximum-power rectangle and the power curve.  The four reference lines and the text
  box carry no label and are left out.
\<close>

theorem script_figure_legend:
  "\<exists>fig. script_figure = Inr fig \<and>
     ax_legend (fig_ax1 fig) =
       Some [''J-V Curve'', ''Voc = 1.008 V'', ''Jsc = 30.53 mA/cm'' @ sup_two,
             ''MPP: (0.916 V, 29.68 mA/cm'' @ sup_two @ '')'', ''Max Power: 27.18 mW/cm'' @ sup_two,
             ''Power'']"
proof -
  obtain Js m where l: "J_range = Some Js" "P_range = Some (power_density V_range Js)"
    "length Js = length V_range" "length (power_density V_range Js) = length V_range"
    "np_max (power_density V_range Js) = Some m"
    "figure_limits = Some \<lparr>ax1_xlim = (-0.1, Voc + 0.05), ax1_ylim = (-2, Jsc ref_params * 1.1),
                          ax2_ylim = (0, m * 1.1)\<rparr>"
    "script_figure = draw_figure V_range Js (power_density V_range Js)"
    by (rule ref_script_figure)
  show ?thesis
    using draw_figure_Inr[OF l(3,4,5)]
    by (simp add: l(7) key_point_markers_def max_power_label_def report_eval)
qed

end
