(* ===== verification/Newton_Rate.thy ===== *)
theory Newton_Rate
  imports Reference_Sweep
begin

text \<open>
  How fast the Newton loop of src/solarcell.py lines 28--38 converges, and that the cap
  of 100 passes (line 28) is enough at the script's parameters for every voltage of the
  swept range, not only in the limit.  \<open>newton_err p V k\<close> is the error of the \<open>k\<close>-th
  iterate and \<open>diode_rate p\<close> the factor \<open>a = Rs / (n Vt)\<close> by which the exponent
  of line 30 grows with \<open>J\<close>.

  The argument: a step from a guess at error \<open>e \<ge> 0\<close> removes at least
  \<open>e exp (-a e)\<close> of it (convexity of the residual), so on a block of errors
  \<open>[lo, hi]\<close> each pass gains at least \<open>lo / exp (a hi)\<close>, and below 1 the error is
  squared and multiplied by \<open>a\<close>.  At the reference parameters \<open>a = 50/1551\<close>, the
  solution is above \<open>-70\<close> on the range, so the first error is below \<open>3.5 / a\<close>; blocks
  at \<open>a e = 7/2, 2, 1, 1/2, 1/4\<close> take 26, 8, 3, 2 and 9 passes down to error 1, and
  three quadratic passes take it below \<open>10\<^sup>-\<^sup>1\<^sup>0\<close>.
\<close>

abbreviation diode_rate :: "cell_params \<Rightarrow> real" where
  "diode_rate p \<equiv> Rs p / (n p * Vt p)"

abbreviation newton_err :: "cell_params \<Rightarrow> voltage \<Rightarrow> nat \<Rightarrow> real" where
  "newton_err p V k \<equiv> newton_iter p V k - diode_solution p V"

subsection \<open>The gain of one step\<close>

lemma newton_step_gain:
  assumes "valid_params p" "diode_solution p V \<le> J"
  shows "(J - diode_solution p V) * exp (- (diode_rate p * (J - diode_solution p V)))
           \<le> J - newton_step p V J"
proof -
  let ?s = "diode_solution p V" and ?a = "diode_rate p" and ?r = "Rs p / Rsh p"
  let ?e = "J - ?s" and ?D = "J0 p * exp (exp_arg p V ?s)"
  note pos = valid_paramsD[OF assms(1)]
  have e: "0 \<le> ?e" "0 \<le> ?a" "0 \<le> ?r" "0 \<le> ?D"
    using assms(2) pos by simp_all
  have "exp_arg p V J - exp_arg p V ?s = ?a * ?e"
    using exp_arg_diff[OF assms(1), of V J ?s] by (simp add: mult.commute)
  then have "exp_arg p V J = exp_arg p V ?s + ?a * ?e"
    by linarith
  then have arg: "exp (exp_arg p V J) = exp (exp_arg p V ?s) * exp (?a * ?e)"
    by (simp add: exp_add)
  have f: "diode_f p V J = ?e * (1 + ?r) + ?D * (exp (?a * ?e) - 1)"
    using diode_solution_root[OF assms(1), of V] arg
    by (simp add: diode_f_def add_divide_distrib diff_divide_distrib algebra_simps)
  have df: "diode_df p V J = 1 + ?r + ?a * (?D * exp (?a * ?e))"
    using arg by (simp add: diode_df_def algebra_simps)
  have ex: "exp (- (?a * ?e)) * exp (?a * ?e) = 1"
    by (simp add: exp_add[symmetric])
  have "exp (- (?a * ?e)) \<le> 1"
    using mult_nonneg_nonneg[OF e(2) e(1)] by simp
  then have "?e * exp (- (?a * ?e)) \<le> ?e"
    using mult_left_mono[of _ 1 ?e] e(1) by simp
  then have "?e * exp (- (?a * ?e)) * (1 + ?r) \<le> ?e * (1 + ?r)"
    using e(3) by (intro mult_right_mono) simp_all
  moreover have "?a * ?e \<le> exp (?a * ?e) - 1"
    using exp_ge_add_one_self[of "?a * ?e"] by linarith
  then have "?D * (?a * ?e) \<le> ?D * (exp (?a * ?e) - 1)"
    using e(4) by (rule mult_left_mono)
  ultimately have le: "?e * exp (- (?a * ?e)) * (1 + ?r) + ?D * (?a * ?e)
                         \<le> ?e * (1 + ?r) + ?D * (exp (?a * ?e) - 1)"
    by (rule add_mono)
  have "?e * exp (- (?a * ?e)) * diode_df p V J
          = ?e * exp (- (?a * ?e)) * (1 + ?r) + ?D * (?a * ?e) * (exp (- (?a * ?e)) * exp (?a * ?e))"
  proof -
    have "\<And>x y z w u v::real. x * y * (1 + z + w * (u * v)) = x * y * (1 + z) + u * (w * x) * (y * v)"
      by (simp add: algebra_simps)
    then show ?thesis
      unfolding df by blast
  qed
  also have "\<dots> = ?e * exp (- (?a * ?e)) * (1 + ?r) + ?D * (?a * ?e)"
    using ex by simp
  also have "\<dots> \<le> diode_f p V J"
    using le f by simp
  finally have "?e * exp (- (?a * ?e)) * diode_df p V J \<le> diode_f p V J" .
  then show ?thesis
    using diode_df_ge_1[OF assms(1), of V J] by (simp add: newton_step_def le_divide_eq)
qed

subsection \<open>The error sequence\<close>

lemma newton_err_nonneg:
  assumes "valid_params p" "0 < k"
  shows "0 \<le> newton_err p V k"
  using newton_iter_overshoot[OF assms(1), of V "k - 1"] diode_solution_le_iff[OF assms(1)] assms(2)
  by simp

lemma newton_err_step:
  assumes "valid_params p" "0 < k"
  shows "newton_err p V (Suc k)
           \<le> newton_err p V k - newton_err p V k * exp (- (diode_rate p * newton_err p V k))"
  using newton_step_gain[OF assms(1), of V "newton_iter p V k"] newton_err_nonneg[OF assms, of V]
  by simp

lemma newton_err_antitone:
  assumes "valid_params p" "0 < k" "k \<le> k'"
  shows "newton_err p V k' \<le> newton_err p V k"
  using assms(3)
proof (induction k' rule: dec_induct)
  case base
  then show ?case by simp
next
  case (step m)
  then have "newton_iter p V (Suc m) \<le> newton_iter p V m"
    using newton_iter_antitone_step[OF assms(1)] assms(2) by simp
  with step.IH show ?case by simp
qed

lemma newton_err_quadratic:
  assumes "valid_params p" "0 < k"
  shows "newton_err p V (Suc k) \<le> diode_rate p * (newton_err p V k)\<^sup>2"
proof -
  let ?e = "newton_err p V k" and ?a = "diode_rate p"
  have "1 - ?a * ?e \<le> exp (- (?a * ?e))"
    by (rule exp_minus_ge)
  then have "?e * (1 - ?a * ?e) \<le> ?e * exp (- (?a * ?e))"
    using newton_err_nonneg[OF assms, of V] by (rule mult_left_mono)
  moreover have ident: "\<And>x y::real. x - x * (1 - y * x) = y * x\<^sup>2"
    by (simp add: power2_eq_square algebra_simps)
  ultimately have "?e - ?e * exp (- (?a * ?e)) \<le> ?a * ?e\<^sup>2"
    by (metis diff_left_mono)
  with newton_err_step[OF assms, of V] show ?thesis
    by linarith
qed

text \<open>
  On a block of errors \<open>[lo, hi]\<close> each pass removes at least \<open>lo / c\<close>, where
  \<open>exp (a hi) \<le> c\<close>; enough passes bring the error from at most \<open>hi\<close> to at most
  \<open>lo\<close>.
\<close>

lemma newton_err_block:
  assumes "valid_params p" "0 < k" "newton_err p V k \<le> hi" "0 < lo"
    and "exp (diode_rate p * hi) \<le> c" "hi - lo \<le> real m * (lo / c)"
  shows "newton_err p V (k + m) \<le> lo"
proof -
  let ?a = "diode_rate p"
  have c: "0 < c"
    using assms(5) exp_gt_zero less_le_trans by blast
  have a: "0 \<le> ?a"
    using valid_paramsD[OF assms(1)] by simp
  have gain: "lo / c \<le> x * exp (- (?a * x))" if "lo \<le> x" "x \<le> hi" for x
  proof -
    have "exp (?a * x) \<le> c"
      using assms(5) a that(2) by (meson exp_mono_le mult_left_mono order.trans)
    then have "1 / c \<le> exp (- (?a * x))"
      using c by (simp add: exp_minus divide_inverse le_imp_inverse_le)
    then have "lo * (1 / c) \<le> x * exp (- (?a * x))"
      using that(1) assms(4) c by (intro mult_mono) simp_all
    then show ?thesis by simp
  qed
  have "newton_err p V (k + i) \<le> max lo (hi - real i * (lo / c))" for i
  proof (induction i)
    case 0
    then show ?case using assms(3) by simp
  next
    case (Suc i)
    let ?x = "newton_err p V (k + i)"
    have step: "newton_err p V (k + Suc i) \<le> ?x - ?x * exp (- (?a * ?x))"
      using newton_err_step[OF assms(1), of "k + i" V] assms(2) by simp
    have nn: "0 \<le> ?x * exp (- (?a * ?x))"
      using newton_err_nonneg[OF assms(1), of "k + i" V] assms(2) by simp
    show ?case
    proof (cases "?x \<le> lo")
      case True
      then have "newton_err p V (k + Suc i) \<le> lo"
        using step nn by linarith
      then show ?thesis by simp
    next
      case False
      have "?x \<le> hi"
        using newton_err_antitone[OF assms(1,2), of "k + i" V] assms(3) by simp
      then have "lo / c \<le> ?x * exp (- (?a * ?x))"
        using False gain by simp
      moreover have "?x \<le> hi - real i * (lo / c)"
        using Suc.IH False by (simp add: max_def split: if_splits)
      moreover have "real (Suc i) * (lo / c) = real i * (lo / c) + lo / c"
        by (simp add: algebra_simps)
      ultimately have "newton_err p V (k + Suc i) \<le> hi - real (Suc i) * (lo / c)"
        using step by linarith
      then show ?thesis by simp
    qed
  qed
  from this[of m] show ?thesis
    using assms(6) by (simp add: max_def split: if_splits)
qed

lemma newton_err_quadratic_le:
  assumes "valid_params p" "0 < k" "newton_err p V k \<le> u"
  shows "newton_err p V (Suc k) \<le> diode_rate p * u\<^sup>2"
proof -
  have "(newton_err p V k)\<^sup>2 \<le> u\<^sup>2"
    using newton_err_nonneg[OF assms(1,2), of V] assms(3) by (intro power_mono) simp_all
  then have "diode_rate p * (newton_err p V k)\<^sup>2 \<le> diode_rate p * u\<^sup>2"
    using valid_paramsD[OF assms(1)] by (intro mult_left_mono) simp_all
  with newton_err_quadratic[OF assms(1,2), of V] show ?thesis
    by linarith
qed

subsection \<open>At the reference parameters\<close>

lemma ref_diode_rate: "diode_rate ref_params = 50 / 1551"
  by (simp add: ref_params_def)

lemma ref_solution_lower:
  assumes "V \<le> 1.058312"
  shows "-70 \<le> diode_solution ref_params V"
proof -
  have "exp_arg ref_params 1.058312 (-70) \<le> 32"
    by (simp add: exp_arg_def ref_params_def)
  then have e: "exp (exp_arg ref_params 1.058312 (-70)) \<le> 89362692100000"
    using exp_32_upper exp_mono_le order.trans by blast
  have "diode_f ref_params 1.058312 (-70) =
          - 70 - 3052638788 / 100000000 + (exp (exp_arg ref_params 1.058312 (-70)) - 1) / 1000000000000
          + 0.988312 / 10000"
    by (simp add: diode_f_def ref_params_def)
  also have "\<dots> \<le> 0"
  proof -
    have "(exp (exp_arg ref_params 1.058312 (-70)) - 1) / 1000000000000
            \<le> (89362692100000::real) / 1000000000000"
      using e by (intro divide_right_mono) simp_all
    then show ?thesis by simp
  qed
  finally have f: "diode_f ref_params 1.058312 (-70) \<le> 0" .
  have "V < 1.058312 \<or> V = 1.058312"
    using assms by linarith
  then have "diode_f ref_params V (-70) \<le> diode_f ref_params 1.058312 (-70)"
    using diode_f_V_strict_mono[OF valid_ref_params, of V "1.058312" "-70"]
    by (metis less_imp_le order_refl)
  with f show ?thesis
    using diode_solution_ge_iff[OF valid_ref_params, of "-70" V] by simp
qed

lemma ref_err_bound:
  assumes "-0.1 \<le> V" "V \<le> 1.058312"
  shows "newton_err ref_params V k \<le> 108.57"
  using ref_newton_iter_le[OF assms(1), of k] ref_solution_lower[OF assms(2)]
  by (simp add: ref_params_def)

lemma ref_err_52:
  assumes "-0.1 \<le> V" "V \<le> 1.058312"
  shows "newton_err ref_params V 52 < 1 / 10 ^ 10"
proof -
  note v = valid_ref_params
  have b1: "newton_err ref_params V (1 + 26) \<le> 62.04"
    using newton_err_block[OF v, where k = 1 and V = V and hi = "108.57" and lo = "62.04" and c = "33.6"
            and m = 26] ref_err_bound[OF assms, of 1] exp_7_halves_upper
    by (simp add: ref_diode_rate)
  have b2: "newton_err ref_params V (27 + 8) \<le> 31.02"
    using newton_err_block[OF v, where k = 27 and V = V and hi = "62.04" and lo = "31.02" and c = "7.44641548"
            and m = 8] b1 exp_2_upper
    by (simp add: ref_diode_rate)
  have b3: "newton_err ref_params V (35 + 3) \<le> 15.51"
    using newton_err_block[OF v, where k = 35 and V = V and hi = "31.02" and lo = "15.51" and c = "2.7288121"
            and m = 3] b2 exp_1_upper
    by (simp add: ref_diode_rate)
  have b4: "newton_err ref_params V (38 + 2) \<le> 7.755"
    using newton_err_block[OF v, where k = 38 and V = V and hi = "15.51" and lo = "7.755" and c = "1.65191165"
            and m = 2] b3 exp_half_upper
    by (simp add: ref_diode_rate)
  have b5: "newton_err ref_params V (40 + 9) \<le> 1"
    using newton_err_block[OF v, where k = 40 and V = V and hi = "7.755" and lo = "1" and c = "1.28526715"
            and m = 9] b4 exp_quarter_upper
    by (simp add: ref_diode_rate)
  have "newton_err ref_params V (Suc 49) \<le> 50 / 1551"
    using newton_err_quadratic_le[OF v, of 49 V 1] b5 by (simp add: ref_diode_rate)
  then have "newton_err ref_params V (Suc 50) \<le> 50 / 1551 * (50 / 1551)\<^sup>2"
    using newton_err_quadratic_le[OF v, of 50 V "50 / 1551"] by (simp add: ref_diode_rate)
  then have "newton_err ref_params V (Suc 51) \<le> 50 / 1551 * (50 / 1551 * (50 / 1551)\<^sup>2)\<^sup>2"
    using newton_err_quadratic_le[OF v, of 51 V "50 / 1551 * (50 / 1551)\<^sup>2"] by (simp add: ref_diode_rate)
  moreover have "50 / 1551 * (50 / 1551 * (50 / 1551)\<^sup>2)\<^sup>2 < (1::real) / 10 ^ 10"
    by (simp add: power2_eq_square)
  ultimately show ?thesis
    by simp
qed

lemma ref_step_converged_52:
  assumes "-0.1 \<le> V" "V \<le> 1.058312"
  shows "step_converged (newton_iter ref_params V (Suc 52)) (newton_iter ref_params V 52)"
proof -
  have "newton_iter ref_params V (Suc 52) \<le> newton_iter ref_params V 52"
    using newton_iter_antitone_step[OF valid_ref_params, of 52 V] by simp
  moreover have "0 \<le> newton_err ref_params V (Suc 52)"
    using newton_err_nonneg[OF valid_ref_params, of "Suc 52" V] by simp
  ultimately show ?thesis
    using ref_err_52[OF assms] by (simp add: step_converged_def)
qed

lemma ref_converged_error:
  assumes "-0.1 \<le> V" "V \<le> 1.058312" "J \<le> Jsc ref_params + 1 / 100000"
    and "step_converged (newton_step ref_params V J) J"
  shows "diode_solution ref_params V \<le> newton_step ref_params V J \<and>
         newton_step ref_params V J - diode_solution ref_params V < 1.04 / 10 ^ 10"
proof -
  let ?s = "diode_solution ref_params V" and ?N = "newton_step ref_params V J"
  note v = valid_ref_params
  have sN: "?s \<le> ?N"
    using newton_step_overshoot[OF v, of V J] diode_solution_le_iff[OF v] by simp
  have step: "\<bar>?N - J\<bar> < 1 / 10 ^ 10"
    using assms(4) by (simp add: step_converged_def)
  show ?thesis
  proof (cases "?s \<le> J")
    case False
    with sN step show ?thesis by simp
  next
    case True
    let ?e = "J - ?s"
    have NJ: "?N \<le> J"
      using True diode_solution_le_iff[OF v] newton_step_le[OF v] by blast
    have "?e \<le> 108.57"
      using assms(3) ref_solution_lower[OF assms(2)] by (simp add: ref_params_def)
    then have "exp (diode_rate ref_params * ?e) \<le> exp (7 / 2)"
      using True by (simp add: ref_diode_rate)
    then have "exp (diode_rate ref_params * ?e) \<le> 33.6"
      using exp_7_halves_upper by linarith
    then have "inverse (33.6::real) \<le> inverse (exp (diode_rate ref_params * ?e))"
      by (rule le_imp_inverse_le) simp
    then have big: "1 / 33.6 \<le> exp (- (diode_rate ref_params * ?e))"
      by (simp only: exp_minus inverse_eq_divide)
    have gain: "?e * exp (- (diode_rate ref_params * ?e)) < 1 / 10 ^ 10"
      using newton_step_gain[OF v True] step NJ by simp
    have "?e \<le> 1"
    proof (rule ccontr)
      assume "\<not> ?e \<le> 1"
      then have "1 * (1 / 33.6) \<le> ?e * exp (- (diode_rate ref_params * ?e))"
        using big by (intro mult_mono) simp_all
      with gain show False by simp
    qed
    then have "exp (diode_rate ref_params * ?e) \<le> exp (50 / 1551)"
      using True by (simp add: ref_diode_rate)
    then have "exp (diode_rate ref_params * ?e) \<le> 1.0333"
      using exp_small_upper by linarith
    then have "inverse (1.0333::real) \<le> inverse (exp (diode_rate ref_params * ?e))"
      by (rule le_imp_inverse_le) simp
    then have "1 / 1.0333 \<le> exp (- (diode_rate ref_params * ?e))"
      by (simp only: exp_minus inverse_eq_divide)
    then have "?e * (1 / 1.0333) \<le> ?e * exp (- (diode_rate ref_params * ?e))"
      using True by (intro mult_left_mono) simp_all
    with gain have "?e < 1.04 / 10 ^ 10"
      by simp
    with sN NJ show ?thesis by simp
  qed
qed

lemma ref_solver_accurate:
  assumes "-0.1 \<le> V" "V \<le> 1.058312"
  shows "\<exists>J. solar_cell_current ref_params V = Some J \<and> diode_solution ref_params V \<le> J \<and>
           J - diode_solution ref_params V < 1.04 / 10 ^ 10"
proof -
  obtain j where j: "j \<le> 52"
    "solar_cell_current ref_params V = Some (newton_iter ref_params V (Suc j))"
    "step_converged (newton_iter ref_params V (Suc j)) (newton_iter ref_params V j)"
    using newton_loop_breaks[of 52 100 step_converged "newton_step ref_params V" "Jsc ref_params"]
          ref_step_converged_52[OF assms]
    by (auto simp: solar_cell_current_def)
  have "newton_iter ref_params V j \<le> Jsc ref_params + 1 / 100000"
    using assms(1) by (rule ref_newton_iter_le)
  then show ?thesis
    using ref_converged_error[OF assms, of "newton_iter ref_params V j"] j(2,3) by auto
qed

lemma ref_solution_le_Jsc:
  assumes "-0.1 \<le> V"
  shows "diode_solution ref_params V \<le> Jsc ref_params + 1 / 100000"
proof -
  have "diode_solution ref_params V \<le> newton_iter ref_params V 1"
    using newton_iter_overshoot[OF valid_ref_params, of V 0] diode_solution_le_iff[OF valid_ref_params]
    by simp
  also have "\<dots> \<le> Jsc ref_params + 1 / 100000"
    using assms by (rule ref_newton_iter_le)
  finally show ?thesis .
qed

lemma ref_solution_gap:
  assumes "-0.1 \<le> V1" "V1 < V2" "V2 \<le> 1.058312"
  shows "(V2 - V1) / 1610000 \<le> diode_solution ref_params V1 - diode_solution ref_params V2"
proof -
  let ?s1 = "diode_solution ref_params V1" and ?s2 = "diode_solution ref_params V2"
  note v = valid_ref_params
  have s1: "?s1 \<le> Jsc ref_params + 1 / 100000"
    using assms(1) by (rule ref_solution_le_Jsc)
  have "exp_arg ref_params V1 ?s1 \<le> exp_arg ref_params V2 ?s1"
    using assms(2) by (simp add: exp_arg_def ref_params_def divide_right_mono)
  then have "J0 ref_params * exp (exp_arg ref_params V1 ?s1) \<le> J0 ref_params * exp (exp_arg ref_params V2 ?s1)"
    by (simp add: ref_params_def)
  then have "(V2 - V1) / 10000 \<le> diode_f ref_params V2 ?s1 - diode_f ref_params V1 ?s1"
    by (simp add: diode_f_def ref_params_def diff_divide_distrib add_divide_distrib)
  then have f: "(V2 - V1) / 10000 \<le> diode_f ref_params V2 ?s1"
    using diode_solution_root[OF v, of V1] by simp
  have "diode_f ref_params V2 ?s1 + diode_df ref_params V2 ?s1 * (?s2 - ?s1) \<le> 0"
    using diode_f_tangent[OF v, of V2 ?s1 ?s2] diode_solution_root[OF v, of V2] by simp
  then have t: "diode_f ref_params V2 ?s1 \<le> diode_df ref_params V2 ?s1 * (?s1 - ?s2)"
    by (simp add: algebra_simps)
  have "exp_arg ref_params V2 ?s1 \<le> 32 + 4"
    using s1 assms(3) by (simp add: exp_arg_def ref_params_def divide_right_mono)
  then have "exp (exp_arg ref_params V2 ?s1) \<le> 89362692100000 * 55.4491036"
    using exp_add_upper[OF exp_32_upper exp_4_upper] exp_mono_le order.trans by blast
  then have df: "diode_df ref_params V2 ?s1 \<le> 161"
    by (simp add: diode_df_def ref_params_def)
  have "0 \<le> ?s1 - ?s2"
  proof (rule ccontr)
    assume "\<not> 0 \<le> ?s1 - ?s2"
    then have "diode_df ref_params V2 ?s1 * (?s1 - ?s2) \<le> 0"
      using diode_df_ge_1[OF v, of V2 ?s1] by (intro mult_nonneg_nonpos) simp_all
    with f t assms(2) show False by simp
  qed
  then have "diode_df ref_params V2 ?s1 * (?s1 - ?s2) \<le> 161 * (?s1 - ?s2)"
    by (rule mult_right_mono[OF df])
  with f t show ?thesis by simp
qed

lemma ref_J_range_nth:
  assumes "J_range = Some Js" "i < 500"
  shows "length Js = 500 \<and> diode_solution ref_params (V_range ! i) \<le> Js ! i \<and>
         Js ! i - diode_solution ref_params (V_range ! i) < 1.04 / 10 ^ 10"
proof -
  obtain Js' where Js': "J_range = Some Js'" "length Js' = 500"
    "\<forall>i<500. solar_cell_current ref_params (V_range ! i) = Some (Js' ! i) \<and>
              diode_solution ref_params (V_range ! i) \<le> Js' ! i"
    using ref_sweep_currents by blast
  have "V_range ! i \<in> set V_range"
    using assms(2) by simp
  then have "-0.1 \<le> V_range ! i" "V_range ! i \<le> 1.058312"
    using V_range_bounds by blast+
  then obtain J where "solar_cell_current ref_params (V_range ! i) = Some J"
    "diode_solution ref_params (V_range ! i) \<le> J" "J - diode_solution ref_params (V_range ! i) < 1.04 / 10 ^ 10"
    using ref_solver_accurate by blast
  moreover have "Js' = Js"
    using Js'(1) assms(1) by (metis option.inject)
  ultimately show ?thesis
    using Js' assms(2) by auto
qed

subsection \<open>The cap of 100 passes suffices\<close>

text \<open>
  C24: at the script's parameters and for every voltage of the swept range
  \<open>[-0.1, Voc + 0.05]\<close>, the loop of lines 28--38 leaves through the \<^verbatim>\<open>break\<close> of
  line 37, after at most 53 of its 100 passes: the value returned is an iterate whose
  step passed the test of line 36.  The spec's convergence-rate property, over exact
  reals.
\<close>

theorem solar_cell_current_breaks_within_cap:
  assumes "-0.1 \<le> V" "V \<le> 1.058312"
  shows "\<exists>j\<le>52. solar_cell_current ref_params V = Some (newton_iter ref_params V (Suc j)) \<and>
           step_converged (newton_iter ref_params V (Suc j)) (newton_iter ref_params V j)"
  using newton_loop_breaks[of 52 100 step_converged "newton_step ref_params V" "Jsc ref_params"]
        ref_step_converged_52[OF assms]
  by (simp add: solar_cell_current_def)

theorem solar_cell_current_breaks_within_cap_witness:
  "-0.1 \<le> (0.5::real) \<and> (0.5::real) \<le> 1.058312 \<and>
   (\<exists>j\<le>52. solar_cell_current ref_params 0.5 = Some (newton_iter ref_params 0.5 (Suc j)) \<and>
      step_converged (newton_iter ref_params 0.5 (Suc j)) (newton_iter ref_params 0.5 j))"
  using solar_cell_current_breaks_within_cap[of "0.5"] by simp

subsection \<open>The computed curve\<close>

text \<open>
  C25: every current the sweep of line 44 computes lies at or above the exact solution
  of the single-diode equation at its voltage and less than \<open>1.04 \<cdot> 10\<^sup>-\<^sup>1\<^sup>0\<close> above it:
  the plotted curve is the model's curve up to the solver's tolerance.
\<close>

theorem J_range_accuracy:
  "\<exists>Js. J_range = Some Js \<and> length Js = 500 \<and>
     (\<forall>i<500. diode_solution ref_params (V_range ! i) \<le> Js ! i \<and>
               Js ! i - diode_solution ref_params (V_range ! i) < 1.04 / 10 ^ 10)"
proof -
  obtain Js where Js: "J_range = Some Js"
    using ref_sweep_currents by blast
  have "length Js = 500 \<and>
     (\<forall>i<500. diode_solution ref_params (V_range ! i) \<le> Js ! i \<and>
               Js ! i - diode_solution ref_params (V_range ! i) < 1.04 / 10 ^ 10)"
    using ref_J_range_nth[OF Js] ref_J_range_nth[OF Js, of 0] by simp
  with Js show ?thesis by blast
qed

theorem J_range_accuracy_witness:
  "\<exists>Js. J_range = Some Js \<and> diode_solution ref_params (-0.1) \<le> Js ! 0"
proof -
  obtain Js where "J_range = Some Js" "length Js = 500"
    "\<forall>i<500. diode_solution ref_params (V_range ! i) \<le> Js ! i \<and>
              Js ! i - diode_solution ref_params (V_range ! i) < 1.04 / 10 ^ 10"
    using J_range_accuracy by blast
  then show ?thesis
    using V_range_first by (metis zero_less_numeral)
qed

text \<open>
  C26: the computed J-V curve is strictly decreasing along the sweep, the spec's
  monotonicity property for the solver as the script runs it.  Neighbouring grid
  voltages are \<open>1.158312 / 499\<close> apart, so their exact solutions differ by at least
  \<open>1.4 \<cdot> 10\<^sup>-\<^sup>9\<close> (\<open>ref_solution_gap\<close>), more than the solver's error.
\<close>

theorem J_range_strictly_decreasing:
  "\<exists>Js. J_range = Some Js \<and> sorted_wrt (>) Js"
proof -
  obtain Js where Js: "J_range = Some Js"
    using ref_sweep_currents by blast
  have len: "length Js = 500"
    using ref_J_range_nth[OF Js, of 0] by simp
  have "Js ! Suc i < Js ! i" if "Suc i < 500" for i
  proof -
    have V: "V_range ! i = -0.1 + real i * (1.158312 / 499)"
            "V_range ! Suc i = -0.1 + real (Suc i) * (1.158312 / 499)"
      using that V_range_nth[of i] V_range_nth[of "Suc i"] by simp_all
    have "V_range ! Suc i \<le> 1.058312"
      using that V_range_bounds[of "V_range ! Suc i"] by simp
    moreover have "-0.1 \<le> V_range ! i"
      using V by simp
    moreover have "V_range ! i < V_range ! Suc i"
      using V by simp
    ultimately have "(V_range ! Suc i - V_range ! i) / 1610000
                       \<le> diode_solution ref_params (V_range ! i) - diode_solution ref_params (V_range ! Suc i)"
      by (intro ref_solution_gap)
    moreover have "(V_range ! Suc i - V_range ! i) / 1610000 = 1.158312 / 499 / 1610000"
      using V by (simp add: algebra_simps)
    ultimately show ?thesis
      using ref_J_range_nth[OF Js, of i] ref_J_range_nth[OF Js, of "Suc i"] that by simp
  qed
  then have "sorted_wrt (>) Js"
    using len by (subst sorted_wrt_iff_nth_Suc_transp) (auto simp: transp_def)
  with Js show ?thesis by blast
qed

end
