(* ===== verification/Spec2Isabelle.thy ===== *)
theory Spec2Isabelle
  imports Prelude Newton_Loop Diode_Model Newton_Convergence Measurements Sweep Reference_Sweep
    Formatting Presentation Figure Plot_Calls Newton_Rate
begin

text \<open>
  \<^bold>\<open>A verification development of src/solarcell.py (GaAs p-i-n cell J-V analysis).\<close>

  \<^bold>\<open>The program.\<close> One Python script.  Module constants (lines 5--17) hold measured cell
  data (\<^verbatim>\<open>Voc\<close>, \<^verbatim>\<open>Jsc\<close>, \<^verbatim>\<open>FF\<close>, \<^verbatim>\<open>eta\<close>, \<^verbatim>\<open>V_MPP\<close>, \<^verbatim>\<open>J_MPP\<close>) and
  single-diode parameters (\<^verbatim>\<open>Vt\<close>, \<^verbatim>\<open>n\<close>, \<^verbatim>\<open>J0\<close>, \<^verbatim>\<open>Rs\<close>, \<^verbatim>\<open>Rsh\<close>).
  \<^verbatim>\<open>solar_cell_current\<close> (lines 20--40) solves the implicit single-diode equation
  \<open>f(J) = J - Jsc + J0 (exp ((V + J Rs) / (n Vt)) - 1) + (V + J Rs) / Rsh = 0\<close>
  by at most 100 Newton-Raphson passes from \<open>J = Jsc\<close>, stopping when a step is shorter
  than \<open>10\<^sup>-\<^sup>1\<^sup>0\<close>.  The sweep (lines 43--45) calls it on 500 voltages from -0.1 V to
  \<open>Voc + 0.05\<close> and multiplies voltages and currents into power densities.  The rest
  (lines 47--128) plots the curves, with labels and axis limits computed from the
  constants and the sweep, and prints a report of the measured constants.

  \<^bold>\<open>The theories.\<close>
  \<^item> \<open>Prelude\<close>: type synonyms \<open>voltage\<close> and \<open>current_density\<close>, the
    \<open>diode_defs\<close> collection, and shared real-analysis facts: the tangent line of
    \<open>exp\<close> lies below it, lower bounds of \<open>exp\<close> at 1, 2, 4, 8, 16, 28, 29.95 and 32 by
    repeated squaring of a Taylor bound, upper bounds at \<open>1/4, 1/2, 1, 2, 7/2, 28, 32\<close>
    from \<open>exp x \<le> 1 + x + x\<^sup>2\<close> at \<open>1/128\<close> squared with rounding, and a telescoping
    bound for descending sequences.
  \<^item> \<open>Newton_Loop\<close>: the \<^verbatim>\<open>for\<close>/\<^verbatim>\<open>break\<close>/\<^verbatim>\<open>return J_new\<close> control of lines
    26--40 as \<open>newton_loop\<close>, generic in the step and the stopping test, with the
    unbound \<^verbatim>\<open>J_new\<close> of a zero-pass loop as \<open>None\<close>.  \<open>newton_spec\<close> is its
    reference reading (the iterate after the first passing index, found by \<open>find\<close>);
    the loop refines it exactly (C5) and returns an iterate with the break condition
    or the cap reached (C6).
  \<^item> \<open>Diode_Model\<close>: the record \<open>cell_params\<close> of the six parameters (the global
    \<^verbatim>\<open>Vt\<close> is a field), \<open>ref_params\<close> (the module defaults), \<open>exp_arg\<close>,
    \<open>diode_f\<close> (line 30), \<open>diode_df\<close> (line 32), \<open>newton_step\<close> (line 34),
    \<open>step_converged\<close> (line 36) and \<open>solar_cell_current\<close>.  The abstract
    specification is \<open>diode_solution\<close>, the unique zero of \<open>diode_f\<close>.  The lemmas
    show that \<open>diode_df\<close> is the derivative of \<open>diode_f\<close> and at least 1 (C4), that
    \<open>diode_f\<close> is strictly increasing and convex, so the root exists and is unique
    (C2), that every Newton step lands at or above it (C3), that from the first pass on
    the iterates descend monotonically onto it (C11) and take a step below any
    tolerance \<open>tol\<close> within \<open>\<lceil>(J\<^sub>1 - J\<^sup>*) / tol\<rceil> + 1\<close> passes (C10), that the update
    converges quadratically with the constant \<open>Rs / (n Vt) (df - 1)\<close> (C19), that the
    solver's result lies between the solution and an explicit bound (C1) and within
    \<open>|df(J) - df(J')| 10\<^sup>-\<^sup>1\<^sup>0\<close> of the solution when the test passes (C7), the exact
    closed form when \<open>Rs = 0\<close> (C8), that the solution falls strictly with the voltage
    (C9), and a bound on every exponent (C12).
  \<^item> \<open>Measurements\<close>: the measured constants of lines 5--10 and the numeric content of
    the printed report (lines 113--122) as the record \<open>performance_report\<close>.  Its
    lemmas show that the marked \<^verbatim>\<open>Voc\<close> and MPP are not points of the model's curve
    (C15, C16) and that the model's power maximum is not within 0.01 V of
    \<^verbatim>\<open>V_MPP\<close> (C27).
  \<^item> \<open>Sweep\<close>: numpy's \<open>linspace\<close>, \<open>sweep_currents\<close> over any solver (the
    interface between the driver and the solver: its lemmas hold for every function
    \<open>voltage \<Rightarrow> current_density option\<close>), \<open>power_density\<close>, and the script's
    \<open>V_range\<close>, \<open>J_range\<close>, \<open>P_range\<close>.
  \<^item> \<open>Reference_Sweep\<close>: the script's grid \<open>V_range\<close> is 500 evenly spaced samples
    from -0.1 V to \<^verbatim>\<open>Voc + 0.05\<close> (C17), and every solve of the reference sweep
    returns a current at or above the model's solution; these facts are shared by this
    theory, \<open>Figure\<close> and \<open>Newton_Rate\<close>.
  \<^item> \<open>Newton_Convergence\<close>: without the cap of 100 the iterates converge to the
    solution (C20): they descend monotonically, so they have a limit, and by
    continuity of the update the limit is a fixed point, hence the root.
  \<^item> \<open>Newton_Rate\<close>: the rate of the iteration.  A step from error \<open>e \<ge> 0\<close>
    removes at least \<open>e exp (-a e)\<close> of it, \<open>a = Rs / (n Vt)\<close>
    (\<open>newton_step_gain\<close>, from the convexity of the residual); on a block of errors
    \<open>[lo, hi]\<close> each pass therefore gains \<open>lo / exp (a hi)\<close>
    (\<open>newton_err_block\<close>), and below 1 the error is squared.  At the script's
    parameters the solution is above \<open>-70\<close> on the swept range, and five blocks and
    three quadratic passes bring the error below \<open>10\<^sup>-\<^sup>1\<^sup>0\<close> by pass 52: the loop
    breaks within 53 of its 100 passes for every voltage of the range (C24), and the
    value returned is within \<open>1.04 \<cdot> 10\<^sup>-\<^sup>1\<^sup>0\<close> of the exact solution, so every
    entry of \<open>J_range\<close> is (C25).  Neighbouring grid voltages have exact solutions at
    least \<open>1.4 \<cdot> 10\<^sup>-\<^sup>9\<close> apart (\<open>ref_solution_gap\<close>), so the computed curve is
    strictly decreasing (C26).
  \<^item> \<open>Formatting\<close>: Python's fixed-point conversion \<^verbatim>\<open>{x:.Nf}\<close> of every f-string
    (\<open>fmt_fixed\<close>: sign, round-half-even of \<open>|x| 10\<^sup>N\<close> by \<open>round_half_even\<close>, the
    integer digits by \<open>digits_of\<close>, a point and \<open>N\<close> zero-padded digits by
    \<open>pad_zeros\<close>), used by the strings of \<open>Presentation\<close>.
  \<^item> \<open>Presentation\<close>: the strings the script prints and draws, with the non-ASCII
    characters as their UTF-8 bytes: the report lines of 112--128 (\<open>report_prints\<close>,
    \<open>report_stdout\<close>), the marker labels (57--61), the max-power label (63--65), the
    title (80--83) and the parameter box (94--103).  They feed the legend labels of
    \<open>Plot_Calls\<close>.
  \<^item> \<open>Figure\<close>: \<^verbatim>\<open>max(P_range)\<close> as \<open>np_max\<close> and the axis limits of lines 78,
    86 and 87 as \<open>figure_limits\<close>; the frame spans the sweep and holds every power
    sample under a positive top (C21), and it clips the J-V curve below \<open>-2\<close> at the
    end of the sweep and the negative reverse-bias power (C22).
  \<^item> \<open>Plot_Calls\<close>: the drawing of lines 47--110 as explicit state passing over
    the record \<open>figure\<close> (two \<open>axes\<close> records holding their artists in insertion
    order, labels, title, limits, grid flag and legend).  One operation per matplotlib
    call (\<open>mpl_plot\<close>, \<open>mpl_fill_between\<close>, \<open>mpl_axhline\<close>, \<open>set_ylim\<close>,
    \<open>twinx\<close>, \<open>mpl_legend\<close>, \<dots>), composed in the script's order by
    \<open>draw_figure\<close> in the error sum \<open>plot_error + figure\<close> (\<open>err_bind\<close>,
    \<open>err_fold\<close>).  On the script's arrays the drawing succeeds and its legend lists the
    six labelled artists in order (C23).
  \<^item> This theory: the properties that span the solver, the sweep and the figure: no
    \<^verbatim>\<open>np.exp\<close> argument on the reference sweep comes near the float64 overflow
    threshold (C13), the reverse-bias end of the sweep returns more than \<open>Jsc\<close> (C14),
    the whole curve is computed, with each power the product of its voltage and current
    and each current at or above the model's solution (C18), and every sample of the
    plotted power curve lies below the maximum power \<^verbatim>\<open>V_MPP * J_MPP\<close> that the
    figure marks and labels (C28).

  \<^bold>\<open>Modelling choices.\<close>  Python floats are exact reals: rounding is not modelled, so the
  theorems describe the algorithm the code implements, not the last bits of its output.
  \<^verbatim>\<open>np.exp\<close> is \<open>exp\<close>; its overflow to \<open>inf\<close> above about 709.78 is not modelled as
  a value, but C13 proves that no argument on the reference sweep exceeds 709.  The
  iteration cap 100 is the source's own fuel.  Because each pass makes the loop one
  pass shorter, \<open>newton_loop\<close> is structurally recursive and needs no extra fuel.  C10
  shows that the stopping test eventually succeeds with an unbounded cap, and C24 that
  the cap of 100 is enough at the reference parameters (53 passes suffice) over exact
  reals; that float64 rounding does not spoil it is not proved.  Decimal literals such
  as \<^verbatim>\<open>1e-12\<close> are their exact rational values.
  Parameter validity (\<open>valid_params\<close>: \<open>J0 \<ge> 0\<close>, \<open>n, Vt, Rsh > 0\<close>,
  \<open>Rs \<ge> 0\<close>) is the spec's invariant plus \<open>J0 \<ge> 0\<close>, which the spec omits and the
  solver's correctness needs.

  The f-string conversion rounds the exact value of the decimal literal, where Python
  rounds the nearest binary float; the two differ only on a rounding tie, and none of
  the printed values lies on one.  Strings are byte lists (Isabelle's \<open>char\<close> is a
  byte), so each non-ASCII character of the source is its UTF-8 encoding.

  \<^bold>\<open>Not modelled.\<close>  What matplotlib does with the figure state: the styling
  arguments (colours, widths, fonts, alpha, \<^verbatim>\<open>tick_params\<close>, the text box's
  \<^verbatim>\<open>bbox\<close>), \<^verbatim>\<open>tight_layout\<close> and the rendering by \<^verbatim>\<open>show\<close>, which change nothing
  the model keeps.  The legend is modelled by its labels, not its handles.  numpy's
  broadcasting beyond equal-length arrays is not modelled either.  The spec's
  SolveResult variant (error kinds of the solver) has no counterpart in the code, which
  returns a float or raises, and is not modelled.
\<close>

subsection \<open>Properties of the reference sweep\<close>

text \<open>
  C13: on every voltage of the reference sweep and at every pass, the exponent that
  lines 30 and 32 hand to \<^verbatim>\<open>np.exp\<close> is below 709, where float64 \<open>exp\<close> is still
  finite (it overflows above about 709.78): the unguarded exponential of the source
  never overflows on the sweep the script runs.
\<close>

theorem sweep_exp_args_bounded:
  "\<forall>V \<in> set V_range. \<forall>k. exp_arg ref_params V (newton_iter ref_params V k) < 709"
proof (intro ballI allI)
  fix V k
  assume "V \<in> set V_range"
  then have V: "-0.1 \<le> V" "V \<le> 1.058312"
    by (auto dest: V_range_bounds)
  have "newton_iter ref_params V k \<le> Jsc ref_params + 1 / 100000"
    using V(1) by (rule ref_newton_iter_le)
  then have "exp_arg ref_params V (newton_iter ref_params V k)
               \<le> exp_arg ref_params V (Jsc ref_params + 1 / 100000)"
    by (rule exp_arg_mono[OF valid_ref_params])
  also have "\<dots> < 709"
    using V(2) by (simp add: exp_arg_def ref_params_def)
  finally show "exp_arg ref_params V (newton_iter ref_params V k) < 709" .
qed

theorem sweep_exp_args_bounded_witness:
  "V_range ! 0 \<in> set V_range \<and> exp_arg ref_params (V_range ! 0) (newton_iter ref_params (V_range ! 0) 5) < 709"
proof -
  have "V_range ! 0 \<in> set V_range"
    by (simp add: V_range_def)
  then show ?thesis
    using sweep_exp_args_bounded by blast
qed

text \<open>
  C14: at the reverse-bias end of the sweep, \<open>V = -0.1\<close>, the solver returns a current
  density strictly above \<open>Jsc\<close> (the shunt and diode terms both add current there).
\<close>

theorem sweep_reverse_bias_above_Jsc:
  "\<exists>J. solar_cell_current ref_params (V_range ! 0) = Some J \<and> Jsc ref_params < J"
proof -
  have "exp_arg ref_params (-0.1) (Jsc ref_params) < 0"
    by (simp add: exp_arg_def ref_params_def)
  define E where "E = exp (exp_arg ref_params (-0.1) (Jsc ref_params))"
  have e: "E < 1"
    using \<open>exp_arg ref_params (-0.1) (Jsc ref_params) < 0\<close> by (simp add: E_def)
  have "diode_f ref_params (-0.1) (Jsc ref_params)
          = J0 ref_params * (E - 1) + (-0.1 + Jsc ref_params * Rs ref_params) / Rsh ref_params"
    by (simp add: diode_f_def E_def)
  also have "\<dots> < 0"
    using e by (simp add: ref_params_def)
  finally have "diode_f ref_params (-0.1) (Jsc ref_params) < 0" .
  then have "Jsc ref_params < diode_solution ref_params (-0.1)"
    using diode_solution_le_iff[OF valid_ref_params, of "-0.1" "Jsc ref_params"] by linarith
  then show ?thesis
    using solar_cell_current_ref_above[of "-0.1"] V_range_first by force
qed

text \<open>
  C18: the sweep of lines 43--45 completes: \<open>J_range\<close> and \<open>P_range\<close> hold 500 values,
  the i-th current is what \<open>solar_cell_current\<close> returns at the i-th voltage and lies at
  or above the model's solution there, and the i-th power is voltage times current.
\<close>

theorem sweep_curve:
  "\<exists>Js Ps. J_range = Some Js \<and> P_range = Some Ps \<and> length Js = 500 \<and> length Ps = 500 \<and>
     (\<forall>i<500. solar_cell_current ref_params (V_range ! i) = Some (Js ! i) \<and>
               diode_solution ref_params (V_range ! i) \<le> Js ! i \<and>
               Ps ! i = V_range ! i * Js ! i)"
proof -
  obtain Js where Js: "J_range = Some Js" "length Js = 500"
    "\<forall>i<500. solar_cell_current ref_params (V_range ! i) = Some (Js ! i) \<and>
               diode_solution ref_params (V_range ! i) \<le> Js ! i"
    using ref_sweep_currents by blast
  moreover have "P_range = Some (power_density V_range Js)"
    unfolding P_range_def Js(1) by simp
  moreover have "\<forall>i<500. power_density V_range Js ! i = V_range ! i * Js ! i"
    using Js(2) by (simp add: power_density_nth)
  ultimately show ?thesis
    by (intro exI[of _ Js] exI[of _ "power_density V_range Js"]) simp
qed

theorem sweep_curve_witness:
  "\<exists>Js. J_range = Some Js \<and> solar_cell_current ref_params (-0.1) = Some (Js ! 0)"
  using sweep_curve V_range_first by fastforce

lemma ref_power_sample_lt_27:
  assumes V: "-0.1 \<le> V" "V \<le> 1.058312"
    and J: "diode_solution ref_params V \<le> J" "J - diode_solution ref_params V < 1.04 / 10 ^ 10"
  shows "V * J < 27"
proof (cases "V \<le> 0")
  case True
  have "0 < diode_solution ref_params V"
    using V(1) True by (intro diode_solution_ref_pos) simp_all
  then have "0 \<le> J" using J(1) by simp
  then have "V * J \<le> 0" using True by (simp add: mult_nonpos_nonneg)
  then show ?thesis by simp
next
  case False
  then have V0: "0 \<le> V" by simp
  have bound: "\<And>B Vm. J \<le> B \<Longrightarrow> V \<le> Vm \<Longrightarrow> 0 \<le> B \<Longrightarrow> V * J \<le> Vm * B"
  proof -
    fix B Vm :: real
    assume "J \<le> B" "V \<le> Vm" "0 \<le> B"
    then have "V * J \<le> V * B" "V * B \<le> Vm * B"
      using V0 by (simp_all add: mult_left_mono mult_right_mono)
    then show "V * J \<le> Vm * B" by linarith
  qed
  consider "V \<le> 0.85" | "0.85 \<le> V" "V \<le> 0.905723" | "0.905723 \<le> V" by linarith
  then show ?thesis
  proof cases
    case 1
    have "diode_solution ref_params V \<le> Jsc ref_params + 1 / 100000"
      using V(1) by (rule ref_solution_le_Jsc)
    then have "J \<le> 30.53" using J(2) by (simp add: ref_params_def)
    then have "V * J \<le> 0.85 * 30.53" using 1 by (intro bound) simp_all
    then show ?thesis by simp
  next
    case 2
    have "diode_solution ref_params V \<le> 29.5"
      using 2(1) by (rule ref_solution_le_29_5)
    then have "J \<le> 29.51" using J(2) by simp
    then have "V * J \<le> 0.905723 * 29.51" using 2 by (intro bound) simp_all
    then show ?thesis by simp
  next
    case 3
    have "diode_solution ref_params V \<le> 24"
      using 3 by (rule ref_solution_le_24)
    then have "J \<le> 24.01" using J(2) by simp
    then have "V * J \<le> 1.058312 * 24.01" using V(2) by (intro bound) simp_all
    then show ?thesis by simp
  qed
qed

text \<open>
  C28: the maximum power that lines 63--64 mark (the rectangle \<^verbatim>\<open>fill_between\<close> from
  \<open>0\<close> to \<^verbatim>\<open>V_MPP\<close> up to \<^verbatim>\<open>J_MPP\<close>, labelled \<^verbatim>\<open>Max Power: 27.18 mW/cm2\<close>) lies above
  every sample of the power curve \<^verbatim>\<open>P_range\<close> of line 45 that line 75 plots: no point of
  the solved model reaches it.
\<close>
theorem power_curve_below_MPP:
  "\<exists>Ps. P_range = Some Ps \<and> (\<forall>P \<in> set Ps. P < V_MPP * J_MPP)"
proof -
  obtain Js where Js: "J_range = Some Js" "length Js = 500"
    using ref_sweep_currents by blast
  have "\<forall>P \<in> set (power_density V_range Js). P < V_MPP * J_MPP"
  proof
    fix P assume "P \<in> set (power_density V_range Js)"
    then obtain i where i: "i < 500" "P = power_density V_range Js ! i"
      by (auto simp: in_set_conv_nth power_density_def Js(2))
    then have P: "P = V_range ! i * Js ! i"
      using Js(2) by (simp add: power_density_nth)
    have "V_range ! i \<in> set V_range" using i(1) by simp
    then have "-0.1 \<le> V_range ! i" "V_range ! i \<le> 1.058312"
      using V_range_bounds by blast+
    moreover have "diode_solution ref_params (V_range ! i) \<le> Js ! i"
        "Js ! i - diode_solution ref_params (V_range ! i) < 1.04 / 10 ^ 10"
      using ref_J_range_nth[OF Js(1) i(1)] by simp_all
    ultimately have "P < 27" unfolding P by (rule ref_power_sample_lt_27)
    then show "P < V_MPP * J_MPP" by (simp add: V_MPP_def J_MPP_def)
  qed
  then show ?thesis using Js(1) by (auto simp: P_range_def)
qed

theorem power_curve_below_MPP_witness:
  "\<exists>Ps. P_range = Some Ps \<and> (\<forall>P \<in> set Ps. P < 27.2)"
proof -
  obtain Ps where "P_range = Some Ps" "\<forall>P \<in> set Ps. P < V_MPP * J_MPP"
    using power_curve_below_MPP by blast
  moreover have "V_MPP * J_MPP < 27.2" by (simp add: V_MPP_def J_MPP_def)
  ultimately show ?thesis by force
qed

end
